theory Spec2Isabelle
  imports Main "HOL-Library.AList" "HOL-Library.Sublist"
begin

section \<open>Python values as the program sees them\<close>

text \<open>
  \<^verbatim>\<open>json.loads\<close> hands the program a Python value built from dicts, lists, strings,
  numbers, booleans and \<^verbatim>\<open>None\<close>. A dict is an association list read with
  \<open>map_of\<close>. Strings are byte strings (UTF-8): equality and concatenation of Python
  strings agree with equality and concatenation of their encodings. The payload of
  \<open>JFloat\<close> is the text of the number; the program never computes with it.
\<close>

datatype json =
    JNull
  | JBool bool
  | JInt int
  | JFloat string
  | JStr string
  | JList "json list"
  | JObj "(string \<times> json) list"

text \<open>
  The exceptions that escape the program uncaught. \<open>LibraryError\<close> stands for an exception
  of a library call whose class the program does not catch, with its text.
\<close>

datatype py_exception =
    KeyError string
  | TypeError
  | AttributeError
  | LibraryError string

text \<open>\<^verbatim>\<open>v[k]\<close> with a string key: only a dict can be subscripted by a string.\<close>

fun py_getitem :: "json \<Rightarrow> string \<Rightarrow> py_exception + json" where
  "py_getitem (JObj kvs) k = (case map_of kvs k of None \<Rightarrow> Inl (KeyError k) | Some v \<Rightarrow> Inr v)"
| "py_getitem v k = Inl TypeError"

text \<open>\<^verbatim>\<open>len(v)\<close>: defined on dicts, lists and strings.\<close>

fun py_len :: "json \<Rightarrow> py_exception + nat" where
  "py_len (JList xs) = Inr (length xs)"
| "py_len (JObj kvs) = Inr (length (remdups (map fst kvs)))"
| "py_len (JStr s) = Inr (length s)"
| "py_len v = Inl TypeError"

text \<open>
  \<^verbatim>\<open>for x in v\<close>: a list yields its elements, a dict its keys, a string its characters
  as one-character strings; nothing else is iterable.
\<close>

fun py_iter :: "json \<Rightarrow> py_exception + json list" where
  "py_iter (JList xs) = Inr xs"
| "py_iter (JObj kvs) = Inr (map JStr (remdups (map fst kvs)))"
| "py_iter (JStr s) = Inr (map (\<lambda>c. JStr [c]) s)"
| "py_iter v = Inl TypeError"

definition digit_char :: "nat \<Rightarrow> char" where
  "digit_char n = ''0123456789'' ! n"

fun str_nat :: "nat \<Rightarrow> string" where
  "str_nat n = (if n < 10 then [digit_char n] else str_nat (n div 10) @ [digit_char (n mod 10)])"

declare str_nat.simps [simp del]

definition str_int :: "int \<Rightarrow> string" where
  "str_int i = (if i < 0 then ''-'' @ str_nat (nat (- i)) else str_nat (nat i))"

text \<open>
  \<^verbatim>\<open>str(v)\<close>. A string is returned as it is, an integer in decimal, and
  \<^verbatim>\<open>True\<close>, \<^verbatim>\<open>False\<close>, \<^verbatim>\<open>None\<close> by name. The rendering of floats, lists and
  dicts is the parameter \<open>rp\<close>: every result below holds whatever it is.
\<close>

fun py_str :: "(json \<Rightarrow> string) \<Rightarrow> json \<Rightarrow> string" where
  "py_str rp (JStr s) = s"
| "py_str rp (JInt i) = str_int i"
| "py_str rp (JBool b) = (if b then ''True'' else ''False'')"
| "py_str rp JNull = ''None''"
| "py_str rp v = rp v"

text \<open>\<^verbatim>\<open>v == s\<close> for a string \<open>s\<close>: true only of the same string.\<close>

fun py_eq_str :: "json \<Rightarrow> string \<Rightarrow> bool" where
  "py_eq_str (JStr t) s = (t = s)"
| "py_eq_str v s = False"

text \<open>\<^verbatim>\<open>s + v\<close> for a string \<open>s\<close>: a string can only be concatenated with a string.\<close>

fun py_concat :: "string \<Rightarrow> json \<Rightarrow> py_exception + string" where
  "py_concat s (JStr t) = Inr (s @ t)"
| "py_concat s v = Inl TypeError"

text \<open>
  \<^verbatim>\<open>v.lower()\<close>. Only the ASCII letters are mapped here. The program compares the result
  with \<^verbatim>\<open>'a'\<close> alone, and no character outside ASCII has the lower case \<^verbatim>\<open>a\<close>, so
  the comparison comes out as in Python.
\<close>

definition lower_char :: "char \<Rightarrow> char" where
  "lower_char c =
     (case map_of (zip ''ABCDEFGHIJKLMNOPQRSTUVWXYZ'' ''abcdefghijklmnopqrstuvwxyz'') c of
        None \<Rightarrow> c
      | Some d \<Rightarrow> d)"

fun py_lower :: "json \<Rightarrow> py_exception + string" where
  "py_lower (JStr s) = Inr (map lower_char s)"
| "py_lower v = Inl AttributeError"


section \<open>Outcomes, the environment and the trace of a run\<close>

text \<open>
  A run ends in one of three ways: \<^verbatim>\<open>sys.exit()\<close> after success (the \<open>Inr\<close> results
  below), \<^verbatim>\<open>_handleError\<close> (prints its lines and exits with status -1), or an
  exception that nothing catches.
\<close>

datatype failure =
    Exit "string list"
  | Uncaught py_exception

definition handleError :: "string \<Rightarrow> string option \<Rightarrow> failure" where
  "handleError message ex =
     Exit ([''Error: '' @ message]
           @ (case ex of None \<Rightarrow> [] | Some e \<Rightarrow> [''Root cause:'', CHR 0x09 # e])
           @ [''Terminating.''])"

text \<open>What the https request and \<^verbatim>\<open>json.loads\<close> yield for one call.\<close>

datatype response =
    ConnectFailed string
  | Unparsable string
  | Parsed json

text \<open>
  \<^verbatim>\<open>socket.inet_aton\<close>: accepts, raises \<^verbatim>\<open>socket.error\<close> (caught by
  \<^verbatim>\<open>_validateIP\<close>), or raises something else (a \<^verbatim>\<open>ValueError\<close> for an embedded
  null character), which is not caught.
\<close>

datatype aton_result =
    Accepted
  | SocketError string
  | OtherError string

text \<open>
  The cache is what \<^verbatim>\<open>ConfigParser\<close> presents through \<^verbatim>\<open>cache[section][option]\<close>:
  sections in file order, each with its options. The \<^verbatim>\<open>DEFAULT\<close> section and value
  interpolation of the file format are outside the model.
\<close>

type_synonym cache = "(string \<times> (string \<times> string) list) list"

type_synonym request = "(string \<times> string) list"

text \<open>
  Everything the program reads from outside: the provider's answer to each request,
  the address parser, the rendering of composite values, the answer of the IP finder
  (already decoded and stripped, or the exception text), the cache file as read (or the
  exception text of a malformed file), and whether storing the cache raises.
\<close>

record env =
  api :: "request \<Rightarrow> response"
  inet_aton :: "string \<Rightarrow> aton_result"
  py_repr :: "json \<Rightarrow> string"
  ip_finder :: "string + string"
  cache_file :: "string + cache"
  cache_store :: "cache \<Rightarrow> string option"

datatype event =
    IPLookup
  | APICall request
  | CacheWrite cache


section \<open>The program\<close>

definition validateIP :: "env \<Rightarrow> string \<Rightarrow> failure option" where
  \<open>validateIP e a =
     (case inet_aton e a of
        Accepted \<Rightarrow> None
      | SocketError x \<Rightarrow>
          Some (handleError (''The supplied IP address "'' @ a @ ''" is invalid.'') (Some x))
      | OtherError x \<Rightarrow> Some (Uncaught (LibraryError x)))\<close>

definition getExternalIP :: "env \<Rightarrow> event list \<Rightarrow> (failure + string) \<times> event list" where
  "getExternalIP e tr =
     (case ip_finder e of
        Inl x \<Rightarrow>
          (Inl (handleError ''Could not determine your external IP address.'' (Some x)),
           tr @ [IPLookup])
      | Inr a \<Rightarrow>
          (case validateIP e a of
             Some f \<Rightarrow> (Inl f, tr @ [IPLookup])
           | None \<Rightarrow> (Inr a, tr @ [IPLookup])))"

text \<open>The loop of \<^verbatim>\<open>_linodeAPICall\<close> that appends one line per error entry.\<close>

fun error_lines :: "(json \<Rightarrow> string) \<Rightarrow> string \<Rightarrow> json list \<Rightarrow> py_exception + string" where
  "error_lines rp errorMessage [] = Inr errorMessage"
| "error_lines rp errorMessage (error # rest) =
     (case py_getitem error ''ERRORMESSAGE'' of
        Inl x \<Rightarrow> Inl x
      | Inr m \<Rightarrow>
          (case py_concat [CHR 0x0A, CHR 0x09] m of
             Inl x \<Rightarrow> Inl x
           | Inr line \<Rightarrow>
               (case py_getitem error ''ERRORCODE'' of
                  Inl x \<Rightarrow> Inl x
                | Inr c \<Rightarrow>
                    error_lines rp
                      (errorMessage @ line @ '' (Error Code: '' @ py_str rp c @ '')'') rest)))"

definition check_errors :: "(json \<Rightarrow> string) \<Rightarrow> json \<Rightarrow> failure + json" where
  "check_errors rp response_obj =
     (case py_getitem response_obj ''ERRORARRAY'' of
        Inl x \<Rightarrow> Inl (Uncaught x)
      | Inr api_errors \<Rightarrow>
          (case py_len api_errors of
             Inl x \<Rightarrow> Inl (Uncaught x)
           | Inr n \<Rightarrow>
               if n > 0 then
                 (case py_iter api_errors of
                    Inl x \<Rightarrow> Inl (Uncaught x)
                  | Inr errs \<Rightarrow>
                      (case error_lines rp
                              ''The Linode API call failed with the following error(s).'' errs of
                         Inl x \<Rightarrow> Inl (Uncaught x)
                       | Inr errorMessage \<Rightarrow> Inl (handleError errorMessage None)))
               else Inr response_obj))"

definition linodeAPICall ::
  "env \<Rightarrow> string \<Rightarrow> request \<Rightarrow> event list \<Rightarrow> (failure + json) \<times> event list" where
  "linodeAPICall e key apiParams tr =
     (let req = AList.update ''api_key'' key apiParams in
      (case api e req of
         ConnectFailed x \<Rightarrow>
           Inl (handleError ''An error occurred while connecting to the Linode API.'' (Some x))
       | Unparsable x \<Rightarrow>
           Inl (handleError ''Couldn't parse JSON response from Linode API.'' (Some x))
       | Parsed response_obj \<Rightarrow> check_errors (py_repr e) response_obj,
       tr @ [APICall req]))"

text \<open>The loop of \<^verbatim>\<open>_normalizeDomainID\<close>; the empty list is the fall-through after it.\<close>

fun domain_scan :: "(json \<Rightarrow> string) \<Rightarrow> string \<Rightarrow> json list \<Rightarrow> failure + string" where
  \<open>domain_scan rp candidate [] =
     Inl (handleError
            (''The supplied Domain ID/domain name "'' @ candidate
             @ ''" is invalid or is not associated with the supplied Linode API key.'') None)\<close>
| "domain_scan rp candidate (domain # rest) =
     (case py_getitem domain ''DOMAINID'' of
        Inl x \<Rightarrow> Inl (Uncaught x)
      | Inr i \<Rightarrow>
          (let domainID = py_str rp i in
           if domainID = candidate then Inr domainID
           else
             (case py_getitem domain ''DOMAIN'' of
                Inl x \<Rightarrow> Inl (Uncaught x)
              | Inr n \<Rightarrow>
                  if py_eq_str n candidate then Inr domainID
                  else domain_scan rp candidate rest)))"

definition normalizeDomainID ::
  "env \<Rightarrow> string \<Rightarrow> string \<Rightarrow> event list \<Rightarrow> (failure + string) \<times> event list" where
  "normalizeDomainID e key candidate tr =
     (case linodeAPICall e key [(''api_action'', ''domain.list'')] tr of
        (Inl f, tr') \<Rightarrow> (Inl f, tr')
      | (Inr apiResult, tr') \<Rightarrow>
          (case py_getitem apiResult ''DATA'' of
             Inl x \<Rightarrow> (Inl (Uncaught x), tr')
           | Inr d \<Rightarrow>
               (case py_iter d of
                  Inl x \<Rightarrow> (Inl (Uncaught x), tr')
                | Inr domains \<Rightarrow> (domain_scan (py_repr e) candidate domains, tr'))))"

text \<open>The loop of \<^verbatim>\<open>_normalizeResourceID\<close>.\<close>

fun resource_scan ::
  "(json \<Rightarrow> string) \<Rightarrow> string \<Rightarrow> string \<Rightarrow> json list \<Rightarrow> failure + string" where
  \<open>resource_scan rp domainID candidate [] =
     Inl (handleError
            (''The supplied Resource ID/name "'' @ candidate
             @ ''" is invalid or is not associated with Domain ID "'' @ domainID @ ''".'') None)\<close>
| "resource_scan rp domainID candidate (resource # rest) =
     (case py_getitem resource ''TYPE'' of
        Inl x \<Rightarrow> Inl (Uncaught x)
      | Inr t \<Rightarrow>
          (case py_lower t of
             Inl x \<Rightarrow> Inl (Uncaught x)
           | Inr resourceType \<Rightarrow>
               (case py_getitem resource ''RESOURCEID'' of
                  Inl x \<Rightarrow> Inl (Uncaught x)
                | Inr i \<Rightarrow>
                    (let resourceID = py_str rp i in
                     if resourceType = ''a'' then
                       (if resourceID = candidate then Inr resourceID
                        else
                          (case py_getitem resource ''NAME'' of
                             Inl x \<Rightarrow> Inl (Uncaught x)
                           | Inr n \<Rightarrow>
                               if py_eq_str n candidate then Inr resourceID
                               else resource_scan rp domainID candidate rest))
                     else resource_scan rp domainID candidate rest))))"

definition normalizeResourceID ::
  "env \<Rightarrow> string \<Rightarrow> string \<Rightarrow> string \<Rightarrow> event list \<Rightarrow> (failure + string) \<times> event list" where
  "normalizeResourceID e key domainID candidate tr =
     (case linodeAPICall e key
             [(''api_action'', ''domain.resource.list''), (''DomainID'', domainID)] tr of
        (Inl f, tr') \<Rightarrow> (Inl f, tr')
      | (Inr apiResult, tr') \<Rightarrow>
          (case py_getitem apiResult ''DATA'' of
             Inl x \<Rightarrow> (Inl (Uncaught x), tr')
           | Inr d \<Rightarrow>
               (case py_iter d of
                  Inl x \<Rightarrow> (Inl (Uncaught x), tr')
                | Inr resources \<Rightarrow>
                    (resource_scan (py_repr e) domainID candidate resources, tr'))))"

definition updateDynDNS ::
  "env \<Rightarrow> string \<Rightarrow> string \<Rightarrow> string \<Rightarrow> string \<Rightarrow> event list
   \<Rightarrow> (failure + unit) \<times> event list" where
  "updateDynDNS e key domainID resourceID target tr =
     (case validateIP e target of
        Some f \<Rightarrow> (Inl f, tr)
      | None \<Rightarrow>
          (case linodeAPICall e key
                  [(''api_action'', ''domain.resource.update''), (''DomainID'', domainID),
                   (''ResourceID'', resourceID), (''target'', target)] tr of
             (Inl f, tr') \<Rightarrow> (Inl f, tr')
           | (Inr r, tr') \<Rightarrow> (Inr (), tr')))"

text \<open>The parsed command line; \<open>ip\<close> is \<open>None\<close> when the flag is absent.\<close>

record args =
  apiKey :: string
  domainID :: string
  resourceID :: string
  ip :: "string option"

definition cacheKeyName :: "args \<Rightarrow> string" where
  "cacheKeyName a = resourceID a @ ''.'' @ domainID a"

text \<open>
  The condition of the early exit of \<^verbatim>\<open>_main\<close>: the section is there, it has an
  \<^verbatim>\<open>ip\<close> option, and the option's value is the desired address.
\<close>

definition cache_hit :: "cache \<Rightarrow> string \<Rightarrow> string \<Rightarrow> bool" where
  "cache_hit c k a =
     (case map_of c k of
        None \<Rightarrow> False
      | Some opts \<Rightarrow> (case map_of opts ''ip'' of None \<Rightarrow> False | Some v \<Rightarrow> v = a))"

definition skip_output :: "args \<Rightarrow> string \<Rightarrow> string list" where
  \<open>skip_output a i =
     [''The target IP address "'' @ i @ ''" is already current for Resource ID "''
        @ resourceID a @ ''" with Domain ID "'' @ domainID a @ ''".'',
      ''No update is needed.'',
      ''Terminating.'']\<close>

definition update_output :: "args \<Rightarrow> string \<Rightarrow> string list" where
  \<open>update_output a i =
     [''The target IP address for Resource ID "'' @ resourceID a @ ''" with Domain ID "''
        @ domainID a @ ''" was successfully updated to "'' @ i @ ''".'',
      ''Terminating.'']\<close>

text \<open>The tail of \<^verbatim>\<open>_main\<close> after the early exit: resolve, update, store.\<close>

definition resolve_and_update ::
  "env \<Rightarrow> args \<Rightarrow> string \<Rightarrow> cache \<Rightarrow> event list \<Rightarrow> (failure + string list) \<times> event list" where
  "resolve_and_update e a i c tr =
     (case normalizeDomainID e (apiKey a) (domainID a) tr of
        (Inl f, tr1) \<Rightarrow> (Inl f, tr1)
      | (Inr domainId, tr1) \<Rightarrow>
          (case normalizeResourceID e (apiKey a) domainId (resourceID a) tr1 of
             (Inl f, tr2) \<Rightarrow> (Inl f, tr2)
           | (Inr resourceId, tr2) \<Rightarrow>
               (case updateDynDNS e (apiKey a) domainId resourceId i tr2 of
                  (Inl f, tr3) \<Rightarrow> (Inl f, tr3)
                | (Inr u, tr3) \<Rightarrow>
                    (let c' = AList.update (cacheKeyName a) [(''ip'', i)] c in
                     (case cache_store e c' of
                        Some x \<Rightarrow> (Inl (Uncaught (LibraryError x)), tr3)
                      | None \<Rightarrow> (Inr (update_output a i), tr3 @ [CacheWrite c']))))))"

text \<open>The address to publish: the flag's value as given, or else the external address.\<close>

definition desired_ip :: "env \<Rightarrow> args \<Rightarrow> (failure + string) \<times> event list" where
  "desired_ip e a = (case ip a of Some i \<Rightarrow> (Inr i, []) | None \<Rightarrow> getExternalIP e [])"

definition main :: "env \<Rightarrow> args \<Rightarrow> (failure + string list) \<times> event list" where
  "main e a =
     (case desired_ip e a of
        (Inl f, tr) \<Rightarrow> (Inl f, tr)
      | (Inr i, tr) \<Rightarrow>
          (case cache_file e of
             Inl x \<Rightarrow> (Inl (Uncaught (LibraryError x)), tr)
           | Inr c \<Rightarrow>
               if cache_hit c (cacheKeyName a) i then (Inr (skip_output a i), tr)
               else resolve_and_update e a i c tr))"


section \<open>The vocabulary of the specification\<close>

text \<open>
  The specification speaks of domains with an ID and a name, of records with an ID, a
  name and a type, and of error entries with a message and a code. These read the fields
  off an element of a provider list; they are defined apart from the loops above, which
  are compared with them below.
\<close>

definition domain_id :: "(json \<Rightarrow> string) \<Rightarrow> json \<Rightarrow> string option" where
  "domain_id rp d =
     (case py_getitem d ''DOMAINID'' of Inl x \<Rightarrow> None | Inr i \<Rightarrow> Some (py_str rp i))"

definition domain_name :: "json \<Rightarrow> json option" where
  "domain_name d = (case py_getitem d ''DOMAIN'' of Inl x \<Rightarrow> None | Inr n \<Rightarrow> Some n)"

text \<open>An entry that carries both fields, whatever their values.\<close>

definition domain_entry :: "json \<Rightarrow> bool" where
  "domain_entry d =
     (case py_getitem d ''DOMAINID'' of
        Inl x \<Rightarrow> False
      | Inr i \<Rightarrow> (case py_getitem d ''DOMAIN'' of Inl x \<Rightarrow> False | Inr n \<Rightarrow> True))"

definition domain_matches :: "(json \<Rightarrow> string) \<Rightarrow> string \<Rightarrow> json \<Rightarrow> bool" where
  "domain_matches rp candidate d =
     (domain_id rp d = Some candidate \<or> domain_name d = Some (JStr candidate))"

definition resource_type :: "json \<Rightarrow> string option" where
  "resource_type r = (case py_getitem r ''TYPE'' of Inr (JStr t) \<Rightarrow> Some t | _ \<Rightarrow> None)"

definition resource_id :: "(json \<Rightarrow> string) \<Rightarrow> json \<Rightarrow> string option" where
  "resource_id rp r =
     (case py_getitem r ''RESOURCEID'' of Inl x \<Rightarrow> None | Inr i \<Rightarrow> Some (py_str rp i))"

definition resource_name :: "json \<Rightarrow> json option" where
  "resource_name r = (case py_getitem r ''NAME'' of Inl x \<Rightarrow> None | Inr n \<Rightarrow> Some n)"

text \<open>The type is the address-record type, in either case of the letter.\<close>

definition address_record :: "json \<Rightarrow> bool" where
  "address_record r = (resource_type r = Some ''A'' \<or> resource_type r = Some ''a'')"

definition resource_matches :: "(json \<Rightarrow> string) \<Rightarrow> string \<Rightarrow> json \<Rightarrow> bool" where
  "resource_matches rp candidate r =
     (address_record r
      \<and> (resource_id rp r = Some candidate \<or> resource_name r = Some (JStr candidate)))"

text \<open>An error entry with a string message and a code; the pair of the two.\<close>

definition error_entry :: "json \<Rightarrow> (string \<times> json) option" where
  "error_entry v =
     (case py_getitem v ''ERRORMESSAGE'' of
        Inr (JStr m) \<Rightarrow>
          (case py_getitem v ''ERRORCODE'' of Inl x \<Rightarrow> None | Inr c \<Rightarrow> Some (m, c))
      | _ \<Rightarrow> None)"

text \<open>The line of the report for one entry: newline, tab, message, code.\<close>

definition report_line :: "(json \<Rightarrow> string) \<Rightarrow> string \<times> json \<Rightarrow> string" where
  "report_line rp mc =
     [CHR 0x0A, CHR 0x09] @ fst mc @ '' (Error Code: '' @ py_str rp (snd mc) @ '')''"

text \<open>Whether a failure report printed by \<^verbatim>\<open>_handleError\<close> contains a given text.\<close>

definition report_mentions :: "failure + string \<Rightarrow> string \<Rightarrow> bool" where
  "report_mentions r s =
     (case r of Inl (Exit printed) \<Rightarrow> list_ex (sublist s) printed | _ \<Rightarrow> False)"

text \<open>
  What a run did to the provider and to the cache file, in order: the action of each
  API call and a mark for each write of the cache. The lookup of the external address
  is not part of it.
\<close>

fun event_kind :: "event \<Rightarrow> string" where
  "event_kind IPLookup = ''ip-lookup''"
| "event_kind (APICall req) = (case map_of req ''api_action'' of None \<Rightarrow> [] | Some a \<Rightarrow> a)"
| "event_kind (CacheWrite c) = ''cache-write''"

definition activity :: "event list \<Rightarrow> string list" where
  "activity tr = map event_kind (filter (\<lambda>ev. ev \<noteq> IPLookup) tr)"

text \<open>
  The three requests as they leave \<^verbatim>\<open>_linodeAPICall\<close>: the parameters the caller
  set, in the order it set them, and the key added last.
\<close>

definition domain_list_request :: "string \<Rightarrow> request" where
  "domain_list_request key = [(''api_action'', ''domain.list''), (''api_key'', key)]"

definition resource_list_request :: "string \<Rightarrow> string \<Rightarrow> request" where
  "resource_list_request key d =
     [(''api_action'', ''domain.resource.list''), (''DomainID'', d), (''api_key'', key)]"

definition update_request :: "string \<Rightarrow> string \<Rightarrow> string \<Rightarrow> string \<Rightarrow> request" where
  "update_request key d r target =
     [(''api_action'', ''domain.resource.update''), (''DomainID'', d), (''ResourceID'', r),
      (''target'', target), (''api_key'', key)]"


section \<open>Example environments\<close>

text \<open>
  A provider that answers the two list actions with the given objects and the update
  action with an empty error list; an address parser that accepts one address; an empty
  or given cache. The examples of the specification are instances.
\<close>

definition reply :: "json \<Rightarrow> json" where
  "reply d = JObj [(''ERRORARRAY'', JList []), (''DATA'', d)]"

definition provider :: "json \<Rightarrow> json \<Rightarrow> request \<Rightarrow> response" where
  "provider domains resources req =
     (if map_of req ''api_action'' = Some ''domain.list'' then Parsed domains
      else if map_of req ''api_action'' = Some ''domain.resource.list'' then Parsed resources
      else if map_of req ''api_action'' = Some ''domain.resource.update''
        then Parsed (reply (JObj [(''ResourceID'', JInt 200)]))
      else ConnectFailed ''unknown action'')"

definition example_aton :: "string \<Rightarrow> aton_result" where
  "example_aton s =
     (if s = ''203.0.113.5'' then Accepted
      else SocketError ''illegal IP address string passed to inet_aton'')"

definition example_env :: "json \<Rightarrow> json \<Rightarrow> cache \<Rightarrow> env" where
  "example_env domains resources c =
     \<lparr>api = provider domains resources, inet_aton = example_aton, py_repr = (\<lambda>v. []),
      ip_finder = Inr ''203.0.113.5'', cache_file = Inr c, cache_store = (\<lambda>c. None)\<rparr>"

definition example_domains :: "json list" where
  "example_domains = [JObj [(''DOMAINID'', JInt 100), (''DOMAIN'', JStr ''example.com'')]]"

definition example_resources :: "json list" where
  "example_resources =
     [JObj [(''RESOURCEID'', JInt 200), (''TYPE'', JStr ''A''), (''NAME'', JStr ''home'')]]"

definition example_args :: "string option \<Rightarrow> args" where
  "example_args i =
     \<lparr>apiKey = ''1A4FB63C245D'', domainID = ''example.com'', resourceID = ''home'', ip = i\<rparr>"

text \<open>A later entry's name is an earlier entry's ID.\<close>

definition precedence_domains :: "json list" where
  "precedence_domains =
     [JObj [(''DOMAINID'', JInt 50), (''DOMAIN'', JStr ''other.org'')],
      JObj [(''DOMAINID'', JInt 100), (''DOMAIN'', JStr ''example.com'')],
      JObj [(''DOMAINID'', JInt 200), (''DOMAIN'', JStr ''100'')]]"

text \<open>A CNAME record and an A record that share a name.\<close>

definition mixed_resources :: "json list" where
  "mixed_resources =
     [JObj [(''RESOURCEID'', JInt 300), (''TYPE'', JStr ''CNAME''), (''NAME'', JStr ''home'')],
      JObj [(''RESOURCEID'', JInt 200), (''TYPE'', JStr ''a''), (''NAME'', JStr ''home'')]]"

text \<open>An answer with two error entries.\<close>

definition two_errors :: "json list" where
  "two_errors =
     [JObj [(''ERRORCODE'', JInt 4), (''ERRORMESSAGE'', JStr ''Authentication failed'')],
      JObj [(''ERRORCODE'', JInt 5), (''ERRORMESSAGE'', JStr ''Object not found'')]]"

definition failing_reply :: json where
  "failing_reply = JObj [(''ERRORARRAY'', JList two_errors), (''DATA'', JList example_domains)]"

section \<open>Facts about the Python operations\<close>

lemma py_eq_str_iff: "py_eq_str n s = (n = JStr s)"
  by (cases n) auto

lemma lower_char_a: "lower_char c = CHR ''a'' \<longleftrightarrow> c = CHR ''a'' \<or> c = CHR ''A''"
  by (auto simp: lower_char_def split: if_splits)

lemma lower_is_a: "map lower_char t = ''a'' \<longleftrightarrow> t = ''A'' \<or> t = ''a''"
  by (cases t) (auto simp: lower_char_a)

lemma py_lower_a: "py_lower v = Inr ''a'' \<longleftrightarrow> v = JStr ''A'' \<or> v = JStr ''a''"
  by (cases v) (auto simp: lower_is_a)

lemmas example_defs =
  example_env_def example_aton_def provider_def reply_def example_domains_def
  example_resources_def example_args_def precedence_domains_def mixed_resources_def
  two_errors_def failing_reply_def

lemmas number_defs = str_int_def str_nat.simps digit_char_def


section \<open>The API client\<close>

lemma linodeAPICall_trace:
  "snd (linodeAPICall e key apiParams tr)
     = tr @ [APICall (AList.update ''api_key'' key apiParams)]"
  by (simp add: linodeAPICall_def Let_def)

lemma linodeAPICall_parsed:
  assumes "api e (AList.update ''api_key'' key apiParams) = Parsed obj"
  shows "fst (linodeAPICall e key apiParams tr) = check_errors (py_repr e) obj"
  using assms by (simp add: linodeAPICall_def Let_def)

lemma check_errors_empty:
  assumes "py_getitem obj ''ERRORARRAY'' = Inr errs" "py_len errs = Inr 0"
  shows "check_errors rp obj = Inr obj"
  using assms by (simp add: check_errors_def)

lemma check_errors_Inr:
  assumes "check_errors rp obj = Inr x"
  shows "x = obj"
  using assms by (auto simp: check_errors_def split: sum.splits if_splits)

lemma check_errors_nonempty:
  assumes "py_getitem obj ''ERRORARRAY'' = Inr (JList errs)" "errs \<noteq> []"
  shows "check_errors rp obj =
           (case error_lines rp ''The Linode API call failed with the following error(s).'' errs of
              Inl x \<Rightarrow> Inl (Uncaught x)
            | Inr errorMessage \<Rightarrow> Inl (handleError errorMessage None))"
  using assms by (simp add: check_errors_def)

lemma error_lines_report:
  assumes "map error_entry errs = map Some es"
  shows "error_lines rp acc errs = Inr (acc @ concat (map (report_line rp) es))"
  using assms
proof (induction errs arbitrary: acc es)
  case Nil
  then show ?case by simp
next
  case (Cons x errs)
  then obtain m c es' where es: "es = (m, c) # es'" "error_entry x = Some (m, c)"
    "map error_entry errs = map Some es'"
    by (cases es) auto
  from es(2) have g: "py_getitem x ''ERRORMESSAGE'' = Inr (JStr m)"
    "py_getitem x ''ERRORCODE'' = Inr c"
    by (auto simp: error_entry_def split: sum.splits json.splits)
  show ?case
    using Cons.IH [OF es(3)] g es(1) by (simp add: report_line_def)
qed

text \<open>
  C6. When the parsed answer has a non-empty \<^verbatim>\<open>ERRORARRAY\<close> list, the API client
  returns no data to its caller, whatever the entries are. When every entry carries a
  string message and a code, it fails through \<^verbatim>\<open>_handleError\<close> with one report: the
  heading followed, for each entry in order, by a line with that entry's message and
  its code.
\<close>

theorem linodeAPICall_aggregates_errors:
  assumes "api e (AList.update ''api_key'' key apiParams) = Parsed obj"
    and "py_getitem obj ''ERRORARRAY'' = Inr (JList errs)"
    and "errs \<noteq> []"
  shows "(\<forall>r. fst (linodeAPICall e key apiParams tr) \<noteq> Inr r)
       \<and> (\<forall>es. map error_entry errs = map Some es \<longrightarrow>
             fst (linodeAPICall e key apiParams tr)
               = Inl (handleError
                        (''The Linode API call failed with the following error(s).''
                         @ concat (map (report_line (py_repr e)) es)) None))"
proof -
  have c: "fst (linodeAPICall e key apiParams tr) =
             (case error_lines (py_repr e)
                     ''The Linode API call failed with the following error(s).'' errs of
                Inl x \<Rightarrow> Inl (Uncaught x)
              | Inr errorMessage \<Rightarrow> Inl (handleError errorMessage None))"
    using linodeAPICall_parsed [OF assms(1)] check_errors_nonempty [OF assms(2,3)] by simp
  have "\<forall>r. fst (linodeAPICall e key apiParams tr) \<noteq> Inr r"
    unfolding c by (simp split: sum.split)
  moreover have "\<forall>es. map error_entry errs = map Some es \<longrightarrow>
             fst (linodeAPICall e key apiParams tr)
               = Inl (handleError
                        (''The Linode API call failed with the following error(s).''
                         @ concat (map (report_line (py_repr e)) es)) None)"
    unfolding c by (simp add: error_lines_report)
  ultimately show ?thesis by (rule conjI)
qed

theorem linodeAPICall_aggregates_errors_witness:
  "fst (linodeAPICall (example_env failing_reply (reply (JList [])) [])
          ''1A4FB63C245D'' [(''api_action'', ''domain.list'')] [])
     = Inl (Exit [''Error: The Linode API call failed with the following error(s).''
                    @ [CHR 0x0A, CHR 0x09] @ ''Authentication failed (Error Code: 4)''
                    @ [CHR 0x0A, CHR 0x09] @ ''Object not found (Error Code: 5)'',
                  ''Terminating.''])"
proof -
  let ?e = "example_env failing_reply (reply (JList [])) []"
  have h1: "api ?e (AList.update ''api_key'' ''1A4FB63C245D'' [(''api_action'', ''domain.list'')])
              = Parsed failing_reply"
    by (simp add: example_defs)
  have h2: "py_getitem failing_reply ''ERRORARRAY'' = Inr (JList two_errors)"
    by (simp add: failing_reply_def)
  have h3: "two_errors \<noteq> []"
    by (simp add: two_errors_def)
  have h4: "map error_entry two_errors
              = map Some [(''Authentication failed'', JInt 4), (''Object not found'', JInt 5)]"
    by (simp add: two_errors_def error_entry_def)
  from linodeAPICall_aggregates_errors [OF h1 h2 h3, where tr = "[]"] h4
  have "fst (linodeAPICall ?e ''1A4FB63C245D'' [(''api_action'', ''domain.list'')] [])
          = Inl (handleError
                   (''The Linode API call failed with the following error(s).''
                    @ concat (map (report_line (py_repr ?e))
                        [(''Authentication failed'', JInt 4), (''Object not found'', JInt 5)]))
                   None)"
    by blast
  then show ?thesis
    by (simp add: handleError_def report_line_def number_defs)
qed

text \<open>
  C10. The lookups into the parsed answer are unguarded. An answer that is a JSON object
  without the key \<^verbatim>\<open>ERRORARRAY\<close> makes the API client end in an uncaught
  \<^verbatim>\<open>KeyError\<close>; an answer with an empty \<^verbatim>\<open>ERRORARRAY\<close> and without the key
  \<^verbatim>\<open>DATA\<close> makes either list action end in an uncaught \<^verbatim>\<open>KeyError\<close>. Neither goes
  through \<^verbatim>\<open>_handleError\<close>.
\<close>

theorem missing_keys_raise_KeyError:
  assumes "api e (AList.update ''api_key'' key apiParams) = Parsed (JObj kvs)"
  shows "(map_of kvs ''ERRORARRAY'' = None \<longrightarrow>
            fst (linodeAPICall e key apiParams tr) = Inl (Uncaught (KeyError ''ERRORARRAY'')))
       \<and> (map_of kvs ''ERRORARRAY'' = Some errs \<and> py_len errs = Inr 0
            \<and> map_of kvs ''DATA'' = None \<longrightarrow>
            (apiParams = [(''api_action'', ''domain.list'')] \<longrightarrow>
               fst (normalizeDomainID e key candidate tr) = Inl (Uncaught (KeyError ''DATA'')))
          \<and> (apiParams = [(''api_action'', ''domain.resource.list''), (''DomainID'', d)] \<longrightarrow>
               fst (normalizeResourceID e key d candidate tr)
                 = Inl (Uncaught (KeyError ''DATA''))))"
proof (intro conjI impI)
  assume "map_of kvs ''ERRORARRAY'' = None"
  then show "fst (linodeAPICall e key apiParams tr) = Inl (Uncaught (KeyError ''ERRORARRAY''))"
    using linodeAPICall_parsed [OF assms] by (simp add: check_errors_def)
next
  assume h: "map_of kvs ''ERRORARRAY'' = Some errs \<and> py_len errs = Inr 0
               \<and> map_of kvs ''DATA'' = None"
  then have c: "check_errors (py_repr e) (JObj kvs) = Inr (JObj kvs)"
    by (intro check_errors_empty [of _ errs]) simp_all
  {
    assume "apiParams = [(''api_action'', ''domain.list'')]"
    with assms c h
    show "fst (normalizeDomainID e key candidate tr) = Inl (Uncaught (KeyError ''DATA''))"
      by (simp add: normalizeDomainID_def linodeAPICall_def)
  }
  {
    assume "apiParams = [(''api_action'', ''domain.resource.list''), (''DomainID'', d)]"
    with assms c h
    show "fst (normalizeResourceID e key d candidate tr) = Inl (Uncaught (KeyError ''DATA''))"
      by (simp add: normalizeResourceID_def linodeAPICall_def)
  }
qed

theorem missing_keys_raise_KeyError_witness:
  "fst (linodeAPICall (example_env (JObj [(''DATA'', JList [])]) (reply (JList [])) [])
          ''1A4FB63C245D'' [(''api_action'', ''domain.list'')] [])
     = Inl (Uncaught (KeyError ''ERRORARRAY''))
   \<and> fst (normalizeDomainID
            (example_env (JObj [(''ERRORARRAY'', JList [])]) (JObj [(''ERRORARRAY'', JList [])]) [])
            ''1A4FB63C245D'' ''example.com'' [])
     = Inl (Uncaught (KeyError ''DATA''))
   \<and> fst (normalizeResourceID
            (example_env (JObj [(''ERRORARRAY'', JList [])]) (JObj [(''ERRORARRAY'', JList [])]) [])
            ''1A4FB63C245D'' ''100'' ''home'' [])
     = Inl (Uncaught (KeyError ''DATA''))"
proof -
  let ?e1 = "example_env (JObj [(''DATA'', JList [])]) (reply (JList [])) []"
  let ?e2 = "example_env (JObj [(''ERRORARRAY'', JList [])]) (JObj [(''ERRORARRAY'', JList [])]) []"
  let ?p = "[(''api_action'', ''domain.list'')]"
  let ?q = "[(''api_action'', ''domain.resource.list''), (''DomainID'', ''100'')]"
  have h1: "api ?e1 (AList.update ''api_key'' ''1A4FB63C245D'' ?p)
              = Parsed (JObj [(''DATA'', JList [])])"
    by (simp add: example_defs)
  have h2: "api ?e2 (AList.update ''api_key'' ''1A4FB63C245D'' ?p)
              = Parsed (JObj [(''ERRORARRAY'', JList [])])"
    by (simp add: example_defs)
  have h3: "api ?e2 (AList.update ''api_key'' ''1A4FB63C245D'' ?q)
              = Parsed (JObj [(''ERRORARRAY'', JList [])])"
    by (simp add: example_defs)
  have k1: "map_of [(''DATA'', JList [])] ''ERRORARRAY'' = None"
    by simp
  have k2: "map_of [(''ERRORARRAY'', JList [])] ''ERRORARRAY'' = Some (JList [])
              \<and> py_len (JList []) = Inr 0
              \<and> map_of [(''ERRORARRAY'', JList [])] ''DATA'' = None"
    by simp
  from missing_keys_raise_KeyError
         [OF h1, where errs = "JList []" and candidate = "''example.com''" and tr = "[]"
           and d = "''100''"] k1
  have a: "fst (linodeAPICall ?e1 ''1A4FB63C245D'' ?p []) = Inl (Uncaught (KeyError ''ERRORARRAY''))"
    by blast
  from missing_keys_raise_KeyError
         [OF h2, where errs = "JList []" and candidate = "''example.com''" and tr = "[]"
           and d = "''100''"] k2
  have b: "fst (normalizeDomainID ?e2 ''1A4FB63C245D'' ''example.com'' [])
             = Inl (Uncaught (KeyError ''DATA''))"
    by blast
  from missing_keys_raise_KeyError
         [OF h3, where errs = "JList []" and candidate = "''home''" and tr = "[]"
           and d = "''100''"] k2
  have c: "fst (normalizeResourceID ?e2 ''1A4FB63C245D'' ''100'' ''home'' [])
             = Inl (Uncaught (KeyError ''DATA''))"
    by blast
  from a b c show ?thesis by blast
qed

section \<open>Resolving the domain\<close>

lemma normalizeDomainID_trace:
  "snd (normalizeDomainID e key candidate tr)
     = tr @ [APICall [(''api_action'', ''domain.list''), (''api_key'', key)]]"
proof -
  obtain r t where c: "linodeAPICall e key [(''api_action'', ''domain.list'')] tr = (r, t)"
    by (cases "linodeAPICall e key [(''api_action'', ''domain.list'')] tr")
  from linodeAPICall_trace [of e key "[(''api_action'', ''domain.list'')]" tr] c
  have t: "t = tr @ [APICall [(''api_action'', ''domain.list''), (''api_key'', key)]]"
    by simp
  show ?thesis
    unfolding normalizeDomainID_def c by (simp add: t split: sum.split)
qed

lemma normalizeDomainID_scan:
  assumes "api e [(''api_action'', ''domain.list''), (''api_key'', key)] = Parsed obj"
    and "py_getitem obj ''ERRORARRAY'' = Inr (JList [])"
    and "py_getitem obj ''DATA'' = Inr (JList ds)"
  shows "fst (normalizeDomainID e key candidate tr) = domain_scan (py_repr e) candidate ds"
  using assms
  by (simp add: normalizeDomainID_def linodeAPICall_def check_errors_empty [of _ "JList []"])

lemma domain_scan_skip:
  assumes "domain_entry d" "\<not> domain_matches rp candidate d"
  shows "domain_scan rp candidate (d # rest) = domain_scan rp candidate rest"
  using assms
  by (auto simp: domain_entry_def domain_matches_def domain_id_def domain_name_def
        py_eq_str_iff Let_def split: sum.splits)

lemma domain_scan_skip_all:
  assumes "\<forall>d \<in> set pre. domain_entry d \<and> \<not> domain_matches rp candidate d"
  shows "domain_scan rp candidate (pre @ rest) = domain_scan rp candidate rest"
  using assms
proof (induction pre)
  case Nil
  show ?case by simp
next
  case (Cons d pre)
  then show ?case using domain_scan_skip [of d rp candidate "pre @ rest"] by simp
qed

lemma domain_scan_hit:
  assumes "domain_id rp d = Some i" "i = candidate \<or> domain_name d = Some (JStr candidate)"
  shows "domain_scan rp candidate (d # rest) = Inr i"
  using assms
  by (auto simp: domain_id_def domain_name_def py_eq_str_iff Let_def split: sum.splits)

text \<open>
  C4. Let the provider answer \<^verbatim>\<open>domain.list\<close> without errors and with a list of
  domains in which some entry has a stringified ID equal to the candidate or a name equal
  to the candidate (the same string, nothing looser), and let no entry before it in the
  list do so. Then domain resolution returns the stringified ID of that entry, whatever
  comes after it. The entries before it carry both fields.
\<close>

theorem normalizeDomainID_first_match:
  assumes "api e [(''api_action'', ''domain.list''), (''api_key'', key)] = Parsed obj"
    and "py_getitem obj ''ERRORARRAY'' = Inr (JList [])"
    and "py_getitem obj ''DATA'' = Inr (JList (pre @ d # post))"
    and "\<forall>x \<in> set pre. domain_entry x \<and> \<not> domain_matches (py_repr e) candidate x"
    and "domain_id (py_repr e) d = Some i"
    and "i = candidate \<or> domain_name d = Some (JStr candidate)"
  shows "fst (normalizeDomainID e key candidate tr) = Inr i"
proof -
  have "fst (normalizeDomainID e key candidate tr)
          = domain_scan (py_repr e) candidate (pre @ d # post)"
    using assms(1-3) by (rule normalizeDomainID_scan)
  also have "\<dots> = domain_scan (py_repr e) candidate (d # post)"
    using assms(4) by (rule domain_scan_skip_all)
  also have "\<dots> = Inr i"
    using assms(5,6) by (rule domain_scan_hit)
  finally show ?thesis .
qed

theorem normalizeDomainID_first_match_witness:
  "fst (normalizeDomainID
          (example_env (reply (JList precedence_domains)) (reply (JList example_resources)) [])
          ''1A4FB63C245D'' ''100'' [])
     = Inr ''100''"
proof -
  let ?e = "example_env (reply (JList precedence_domains)) (reply (JList example_resources)) []"
  let ?pre = "[JObj [(''DOMAINID'', JInt 50), (''DOMAIN'', JStr ''other.org'')]]"
  let ?d = "JObj [(''DOMAINID'', JInt 100), (''DOMAIN'', JStr ''example.com'')]"
  let ?post = "[JObj [(''DOMAINID'', JInt 200), (''DOMAIN'', JStr ''100'')]]"
  have h1: "api ?e [(''api_action'', ''domain.list''), (''api_key'', ''1A4FB63C245D'')]
              = Parsed (reply (JList precedence_domains))"
    by (simp add: example_env_def provider_def)
  have h2: "py_getitem (reply (JList precedence_domains)) ''ERRORARRAY'' = Inr (JList [])"
    by (simp add: reply_def)
  have h3: "py_getitem (reply (JList precedence_domains)) ''DATA''
              = Inr (JList (?pre @ ?d # ?post))"
    by (simp add: reply_def precedence_domains_def)
  have h4: "\<forall>x \<in> set ?pre. domain_entry x \<and> \<not> domain_matches (py_repr ?e) ''100'' x"
    by (simp add: domain_entry_def domain_matches_def domain_id_def domain_name_def number_defs)
  have h5: "domain_id (py_repr ?e) ?d = Some ''100''"
    by (simp add: domain_id_def number_defs)
  have h6: "''100'' = ''100'' \<or> domain_name ?d = Some (JStr ''100'')"
    by simp
  show ?thesis
    by (rule normalizeDomainID_first_match [OF h1 h2 h3 h4 h5 h6])
qed

text \<open>
  C8, as the code has it. When the provider answers \<^verbatim>\<open>domain.list\<close> without errors
  and no entry of the list has a stringified ID or a name equal to the candidate, domain
  resolution fails through \<^verbatim>\<open>_handleError\<close> after its one API call. The message quotes
  the candidate; of the credential it says only "the supplied Linode API key", so the
  report is the same for every key.
\<close>

theorem normalizeDomainID_unknown:
  assumes "api e [(''api_action'', ''domain.list''), (''api_key'', key)] = Parsed obj"
    and "py_getitem obj ''ERRORARRAY'' = Inr (JList [])"
    and "py_getitem obj ''DATA'' = Inr (JList ds)"
    and "\<forall>x \<in> set ds. domain_entry x \<and> \<not> domain_matches (py_repr e) candidate x"
  shows \<open>normalizeDomainID e key candidate tr
           = (Inl (handleError
                     (''The supplied Domain ID/domain name "'' @ candidate
                      @ ''" is invalid or is not associated with the supplied Linode API key.'')
                     None),
              tr @ [APICall [(''api_action'', ''domain.list''), (''api_key'', key)]])\<close>
proof -
  have "fst (normalizeDomainID e key candidate tr) = domain_scan (py_repr e) candidate (ds @ [])"
    using normalizeDomainID_scan [OF assms(1-3)] by simp
  also have "\<dots> = domain_scan (py_repr e) candidate []"
    using assms(4) by (rule domain_scan_skip_all)
  finally show ?thesis
    using normalizeDomainID_trace [of e key candidate tr]
    by (cases "normalizeDomainID e key candidate tr") simp
qed

theorem normalizeDomainID_unknown_witness:
  \<open>normalizeDomainID
     (example_env (reply (JList example_domains)) (reply (JList example_resources)) [])
     ''1A4FB63C245D'' ''nope.com'' []
   = (Inl (Exit [''Error: The supplied Domain ID/domain name "nope.com" is invalid or is not associated with the supplied Linode API key.'',
                 ''Terminating.'']),
      [APICall [(''api_action'', ''domain.list''), (''api_key'', ''1A4FB63C245D'')]])\<close>
proof -
  let ?e = "example_env (reply (JList example_domains)) (reply (JList example_resources)) []"
  have h1: "api ?e [(''api_action'', ''domain.list''), (''api_key'', ''1A4FB63C245D'')]
              = Parsed (reply (JList example_domains))"
    by (simp add: example_env_def provider_def)
  have h2: "py_getitem (reply (JList example_domains)) ''ERRORARRAY'' = Inr (JList [])"
    by (simp add: reply_def)
  have h3: "py_getitem (reply (JList example_domains)) ''DATA'' = Inr (JList example_domains)"
    by (simp add: reply_def)
  have h4: "\<forall>x \<in> set example_domains.
              domain_entry x \<and> \<not> domain_matches (py_repr ?e) ''nope.com'' x"
    by (simp add: example_domains_def domain_entry_def domain_matches_def domain_id_def
          domain_name_def number_defs)
  show ?thesis
    using normalizeDomainID_unknown [OF h1 h2 h3 h4, of "[]"]
    by (simp add: handleError_def)
qed

text \<open>
  C8, as the specification states it, fails: in the run above the report contains the
  candidate and does not contain the credential used for the call.
\<close>

theorem normalizeDomainID_unknown_omits_credential:
  "report_mentions
     (fst (normalizeDomainID
             (example_env (reply (JList example_domains)) (reply (JList example_resources)) [])
             ''1A4FB63C245D'' ''nope.com'' []))
     ''nope.com''
   \<and> \<not> report_mentions
     (fst (normalizeDomainID
             (example_env (reply (JList example_domains)) (reply (JList example_resources)) [])
             ''1A4FB63C245D'' ''nope.com'' []))
     ''1A4FB63C245D''"
  by (simp add: normalizeDomainID_def linodeAPICall_def check_errors_def example_defs
        number_defs handleError_def report_mentions_def sublist_Cons_right Let_def)


section \<open>Resolving the record\<close>

lemma normalizeResourceID_trace:
  "snd (normalizeResourceID e key d candidate tr)
     = tr @ [APICall [(''api_action'', ''domain.resource.list''), (''DomainID'', d),
                      (''api_key'', key)]]"
proof -
  let ?p = "[(''api_action'', ''domain.resource.list''), (''DomainID'', d)]"
  obtain r t where c: "linodeAPICall e key ?p tr = (r, t)"
    by (cases "linodeAPICall e key ?p tr")
  from linodeAPICall_trace [of e key ?p tr] c
  have t: "t = tr @ [APICall (?p @ [(''api_key'', key)])]"
    by simp
  show ?thesis
    unfolding normalizeResourceID_def c by (simp add: t split: sum.split)
qed

lemma resource_scan_step:
  assumes "resource_scan rp d candidate (r # rs) = Inr rid"
  shows "(address_record r \<and> resource_id rp r = Some rid
            \<and> (rid = candidate \<or> resource_name r = Some (JStr candidate)))
         \<or> (\<not> resource_matches rp candidate r \<and> resource_scan rp d candidate rs = Inr rid)"
proof -
  from assms obtain t i where t: "py_getitem r ''TYPE'' = Inr t"
    and i: "py_getitem r ''RESOURCEID'' = Inr i"
    by (auto split: sum.splits)
  from assms t obtain ty where ty: "py_lower t = Inr ty"
    by (auto split: sum.splits)
  show ?thesis
  proof (cases "ty = ''a''")
    case True
    with ty have a: "address_record r"
      using t by (auto simp: py_lower_a address_record_def resource_type_def)
    from assms t i ty True show ?thesis
      using a
      by (auto simp: resource_matches_def resource_id_def resource_name_def py_eq_str_iff
            Let_def split: sum.splits if_splits)
  next
    case False
    with ty have "t \<noteq> JStr ''A'' \<and> t \<noteq> JStr ''a''"
      using py_lower_a [of t] by auto
    with t have "\<not> address_record r"
      by (auto simp: address_record_def resource_type_def split: json.splits)
    with assms t i ty False show ?thesis
      by (auto simp: resource_matches_def Let_def)
  qed
qed

lemma resource_scan_sound:
  assumes "resource_scan rp d candidate rs = Inr rid"
  shows "\<exists>pre r post. rs = pre @ r # post \<and> address_record r \<and> resource_id rp r = Some rid
           \<and> (rid = candidate \<or> resource_name r = Some (JStr candidate))
           \<and> (\<forall>x \<in> set pre. \<not> resource_matches rp candidate x)"
  using assms
proof (induction rs)
  case Nil
  then show ?case by simp
next
  case (Cons r rs)
  from resource_scan_step [OF Cons.prems]
  show ?case
  proof
    assume h: "address_record r \<and> resource_id rp r = Some rid
                 \<and> (rid = candidate \<or> resource_name r = Some (JStr candidate))"
    have "r # rs = [] @ r # rs" by simp
    with h show ?thesis by (metis empty_iff list.set(1))
  next
    assume h: "\<not> resource_matches rp candidate r \<and> resource_scan rp d candidate rs = Inr rid"
    then obtain pre x post where p: "rs = pre @ x # post" "address_record x"
      "resource_id rp x = Some rid"
      "rid = candidate \<or> resource_name x = Some (JStr candidate)"
      "\<forall>y \<in> set pre. \<not> resource_matches rp candidate y"
      using Cons.IH by blast
    have "r # rs = (r # pre) @ x # post" using p(1) by simp
    moreover have "\<forall>y \<in> set (r # pre). \<not> resource_matches rp candidate y"
      using h p(5) by simp
    ultimately show ?thesis using p(2,3,4) by blast
  qed
qed

lemma normalizeResourceID_Inr:
  assumes "api e [(''api_action'', ''domain.resource.list''), (''DomainID'', d),
                  (''api_key'', key)] = Parsed obj"
    and "py_getitem obj ''DATA'' = Inr (JList rs)"
    and "fst (normalizeResourceID e key d candidate tr) = Inr rid"
  shows "resource_scan (py_repr e) d candidate rs = Inr rid"
  using assms
  by (auto simp: normalizeResourceID_def linodeAPICall_def split: sum.splits
        dest!: check_errors_Inr)

text \<open>
  C5. Whatever list of records the provider returns, an ID that record resolution returns
  is the stringified ID of a record of the list whose type is \<^verbatim>\<open>A\<close> (in either case)
  and whose stringified ID or name is the candidate, and no record before it in the list
  is of type \<^verbatim>\<open>A\<close> with such an ID or name. A record of another type is never the one
  returned, whatever its ID and name.
\<close>

theorem normalizeResourceID_only_address_records:
  assumes "api e [(''api_action'', ''domain.resource.list''), (''DomainID'', d),
                  (''api_key'', key)] = Parsed obj"
    and "py_getitem obj ''DATA'' = Inr (JList rs)"
    and "fst (normalizeResourceID e key d candidate tr) = Inr rid"
  shows "\<exists>pre r post. rs = pre @ r # post
           \<and> (resource_type r = Some ''A'' \<or> resource_type r = Some ''a'')
           \<and> resource_id (py_repr e) r = Some rid
           \<and> (rid = candidate \<or> resource_name r = Some (JStr candidate))
           \<and> (\<forall>x \<in> set pre. \<not> resource_matches (py_repr e) candidate x)"
  using resource_scan_sound [OF normalizeResourceID_Inr [OF assms]]
  by (simp add: address_record_def)

theorem normalizeResourceID_only_address_records_witness:
  "fst (normalizeResourceID
          (example_env (reply (JList example_domains)) (reply (JList mixed_resources)) [])
          ''1A4FB63C245D'' ''100'' ''home'' []) = Inr ''200''
   \<and> (\<exists>pre r post. mixed_resources = pre @ r # post
         \<and> (resource_type r = Some ''A'' \<or> resource_type r = Some ''a'')
         \<and> resource_id (\<lambda>v. []) r = Some ''200''
         \<and> (''200'' = ''home'' \<or> resource_name r = Some (JStr ''home'')))"
proof -
  let ?e = "example_env (reply (JList example_domains)) (reply (JList mixed_resources)) []"
  have h1: "api ?e [(''api_action'', ''domain.resource.list''), (''DomainID'', ''100''),
                    (''api_key'', ''1A4FB63C245D'')] = Parsed (reply (JList mixed_resources))"
    by (simp add: example_env_def provider_def)
  have h2: "py_getitem (reply (JList mixed_resources)) ''DATA'' = Inr (JList mixed_resources)"
    by (simp add: reply_def)
  have h3: "fst (normalizeResourceID ?e ''1A4FB63C245D'' ''100'' ''home'' []) = Inr ''200''"
    by (simp add: normalizeResourceID_def linodeAPICall_def check_errors_def example_defs
          number_defs lower_char_def Let_def)
  have r: "py_repr ?e = (\<lambda>v. [])"
    by (simp add: example_env_def)
  from normalizeResourceID_only_address_records [OF h1 h2 h3]
  have "\<exists>pre r post. mixed_resources = pre @ r # post
          \<and> (resource_type r = Some ''A'' \<or> resource_type r = Some ''a'')
          \<and> resource_id (\<lambda>v. []) r = Some ''200''
          \<and> (''200'' = ''home'' \<or> resource_name r = Some (JStr ''home''))"
    unfolding r by blast
  with h3 show ?thesis by (rule conjI)
qed


section \<open>The update\<close>

text \<open>
  C7. When the address parser rejects the target, the update operation fails through
  \<^verbatim>\<open>_handleError\<close> with the invalid-address message and the parser's error as root
  cause, and the trace of calls is the one it was given: no request was sent.
\<close>

theorem updateDynDNS_rejects_before_call:
  assumes "inet_aton e target = SocketError x"
  shows \<open>updateDynDNS e key d r target tr
           = (Inl (handleError (''The supplied IP address "'' @ target @ ''" is invalid.'')
                     (Some x)), tr)\<close>
  using assms by (simp add: updateDynDNS_def validateIP_def)

theorem updateDynDNS_rejects_before_call_witness:
  \<open>updateDynDNS
     (example_env (reply (JList example_domains)) (reply (JList example_resources)) [])
     ''1A4FB63C245D'' ''100'' ''200'' ''not-an-ip'' []
   = (Inl (Exit [''Error: The supplied IP address "not-an-ip" is invalid.'',
                 ''Root cause:'',
                 CHR 0x09 # ''illegal IP address string passed to inet_aton'',
                 ''Terminating.'']), [])\<close>
proof -
  let ?e = "example_env (reply (JList example_domains)) (reply (JList example_resources)) []"
  have h: "inet_aton ?e ''not-an-ip''
             = SocketError ''illegal IP address string passed to inet_aton''"
    by (simp add: example_env_def example_aton_def)
  show ?thesis
    using updateDynDNS_rejects_before_call [OF h, of "''1A4FB63C245D''" "''100''" "''200''" "[]"]
    by (simp add: handleError_def)
qed

section \<open>A whole run\<close>

lemma activity_append: "activity (tr @ tr') = activity tr @ activity tr'"
  by (simp add: activity_def)

lemma desired_ip_activity: "activity (snd (desired_ip e a)) = []"
  by (simp add: desired_ip_def getExternalIP_def activity_def split: option.split sum.split)

lemma updateDynDNS_trace:
  "(\<exists>f. updateDynDNS e key d r target tr = (Inl f, tr))
   \<or> (\<exists>res. updateDynDNS e key d r target tr
         = (res, tr @ [APICall [(''api_action'', ''domain.resource.update''), (''DomainID'', d),
                                (''ResourceID'', r), (''target'', target), (''api_key'', key)]]))"
proof -
  let ?p = "[(''api_action'', ''domain.resource.update''), (''DomainID'', d),
             (''ResourceID'', r), (''target'', target)]"
  obtain res t where c: "linodeAPICall e key ?p tr = (res, t)"
    by (cases "linodeAPICall e key ?p tr")
  from linodeAPICall_trace [of e key ?p tr] c
  have t: "t = tr @ [APICall (?p @ [(''api_key'', key)])]"
    by simp
  show ?thesis
    unfolding updateDynDNS_def c by (simp add: t split: option.split sum.split)
qed

lemma updateDynDNS_done:
  assumes "fst (updateDynDNS e key d r target tr) = Inr u"
  shows "snd (updateDynDNS e key d r target tr)
           = tr @ [APICall [(''api_action'', ''domain.resource.update''), (''DomainID'', d),
                            (''ResourceID'', r), (''target'', target), (''api_key'', key)]]"
  using assms updateDynDNS_trace [of e key d r target tr] by auto

text \<open>The three requests of the update path, as the trace records them.\<close>

lemma resolve_and_update_shape:
  "(\<forall>out. fst (resolve_and_update e a i c tr) = Inr out \<longrightarrow>
      out = update_output a i
      \<and> activity (snd (resolve_and_update e a i c tr))
          = activity tr @ [''domain.list'', ''domain.resource.list'', ''domain.resource.update'',
                           ''cache-write'']
      \<and> (\<exists>tr'. snd (resolve_and_update e a i c tr)
            = tr' @ [CacheWrite (AList.update (cacheKeyName a) [(''ip'', i)] c)]
            \<and> (\<forall>w. CacheWrite w \<in> set tr' \<longrightarrow> CacheWrite w \<in> set tr)))
   \<and> (\<forall>f. fst (resolve_and_update e a i c tr) = Inl f \<longrightarrow>
        (\<exists>ks. activity (snd (resolve_and_update e a i c tr)) = activity tr @ ks
           \<and> ks \<noteq> []
           \<and> prefix ks [''domain.list'', ''domain.resource.list'', ''domain.resource.update''])
        \<and> (\<forall>w. CacheWrite w \<in> set (snd (resolve_and_update e a i c tr))
              \<longrightarrow> CacheWrite w \<in> set tr))
   \<and> (\<exists>rest. snd (resolve_and_update e a i c tr)
         = tr @ APICall [(''api_action'', ''domain.list''), (''api_key'', apiKey a)] # rest)"
proof -
  let ?D = "APICall [(''api_action'', ''domain.list''), (''api_key'', apiKey a)]"
  obtain r1 where n1: "normalizeDomainID e (apiKey a) (domainID a) tr = (r1, tr @ [?D])"
    using normalizeDomainID_trace [of e "apiKey a" "domainID a" tr]
    by (cases "normalizeDomainID e (apiKey a) (domainID a) tr") simp
  show ?thesis
  proof (cases r1)
    case (Inl f)
    then have "resolve_and_update e a i c tr = (Inl f, tr @ [?D])"
      by (simp add: resolve_and_update_def n1)
    then show ?thesis
      by (simp add: activity_def)
  next
    case (Inr domainId)
    let ?R = "APICall [(''api_action'', ''domain.resource.list''), (''DomainID'', domainId),
                       (''api_key'', apiKey a)]"
    obtain r2 where n2: "normalizeResourceID e (apiKey a) domainId (resourceID a) (tr @ [?D])
                           = (r2, tr @ [?D, ?R])"
      using normalizeResourceID_trace [of e "apiKey a" domainId "resourceID a" "tr @ [?D]"]
      by (cases "normalizeResourceID e (apiKey a) domainId (resourceID a) (tr @ [?D])") simp
    show ?thesis
    proof (cases r2)
      case (Inl f)
      with Inr have "resolve_and_update e a i c tr = (Inl f, tr @ [?D, ?R])"
        by (simp add: resolve_and_update_def n1 n2)
      then show ?thesis
        by (simp add: activity_def)
    next
      case r2: (Inr resourceId)
      let ?U = "APICall [(''api_action'', ''domain.resource.update''), (''DomainID'', domainId),
                         (''ResourceID'', resourceId), (''target'', i), (''api_key'', apiKey a)]"
      let ?W = "CacheWrite (AList.update (cacheKeyName a) [(''ip'', i)] c)"
      from updateDynDNS_trace [of e "apiKey a" domainId resourceId i "tr @ [?D, ?R]"]
      consider f where "updateDynDNS e (apiKey a) domainId resourceId i (tr @ [?D, ?R])
                          = (Inl f, tr @ [?D, ?R])"
        | f where "updateDynDNS e (apiKey a) domainId resourceId i (tr @ [?D, ?R])
                          = (Inl f, tr @ [?D, ?R, ?U])"
        | u where "updateDynDNS e (apiKey a) domainId resourceId i (tr @ [?D, ?R])
                          = (Inr u, tr @ [?D, ?R, ?U])"
        by (cases "fst (updateDynDNS e (apiKey a) domainId resourceId i (tr @ [?D, ?R]))")
           auto
      then show ?thesis
      proof cases
        case 1
        with Inr r2 have "resolve_and_update e a i c tr = (Inl f, tr @ [?D, ?R])"
          by (simp add: resolve_and_update_def n1 n2)
        then show ?thesis by (simp add: activity_def)
      next
        case 2
        with Inr r2 have "resolve_and_update e a i c tr = (Inl f, tr @ [?D, ?R, ?U])"
          by (simp add: resolve_and_update_def n1 n2)
        then show ?thesis by (simp add: activity_def)
      next
        case 3
        show ?thesis
        proof (cases "cache_store e (AList.update (cacheKeyName a) [(''ip'', i)] c)")
          case None
          with 3 Inr r2 have "resolve_and_update e a i c tr
                                = (Inr (update_output a i), (tr @ [?D, ?R, ?U]) @ [?W])"
            by (simp add: resolve_and_update_def n1 n2 Let_def)
          then show ?thesis
            by (auto simp: activity_def)
        next
          case (Some x)
          with 3 Inr r2 have "resolve_and_update e a i c tr
                                = (Inl (Uncaught (LibraryError x)), tr @ [?D, ?R, ?U])"
            by (simp add: resolve_and_update_def n1 n2 Let_def)
          then show ?thesis by (simp add: activity_def)
        qed
      qed
    qed
  qed
qed

lemma desired_ip_no_write: "CacheWrite w \<notin> set (snd (desired_ip e a))"
  by (simp add: desired_ip_def getExternalIP_def split: option.split sum.split)

lemma main_unfold:
  assumes "desired_ip e a = (Inr i, tr)" "cache_file e = Inr c"
  shows "main e a =
           (if cache_hit c (cacheKeyName a) i then (Inr (skip_output a i), tr)
            else resolve_and_update e a i c tr)"
  using assms by (simp add: main_def)

lemma main_success:
  assumes "fst (main e a) = Inr out"
  shows "\<exists>i tr c. desired_ip e a = (Inr i, tr) \<and> cache_file e = Inr c"
  using assms
  by (cases "desired_ip e a") (auto simp: main_def split: sum.splits)


lemma updateDynDNS_path:
  "updateDynDNS e key d r target tr =
     (case validateIP e target of
        Some f \<Rightarrow> (Inl f, tr)
      | None \<Rightarrow>
          (case api e (update_request key d r target) of
             ConnectFailed x \<Rightarrow>
               (Inl (handleError ''An error occurred while connecting to the Linode API.''
                       (Some x)),
                tr @ [APICall (update_request key d r target)])
           | Unparsable x \<Rightarrow>
               (Inl (handleError ''Couldn't parse JSON response from Linode API.'' (Some x)),
                tr @ [APICall (update_request key d r target)])
           | Parsed obj \<Rightarrow>
               (case check_errors (py_repr e) obj of
                  Inl f \<Rightarrow> (Inl f, tr @ [APICall (update_request key d r target)])
                | Inr x \<Rightarrow> (Inr (), tr @ [APICall (update_request key d r target)]))))"
  by (simp add: updateDynDNS_def linodeAPICall_def update_request_def Let_def
        split: option.split response.split sum.split)

text \<open>
  The update path with its traces written out: which requests were sent, in which
  order, at each way it can end.
\<close>

lemma resolve_and_update_path:
  "resolve_and_update e a i c tr =
     (case fst (normalizeDomainID e (apiKey a) (domainID a) tr) of
        Inl f \<Rightarrow> (Inl f, tr @ [APICall (domain_list_request (apiKey a))])
      | Inr d \<Rightarrow>
          (case fst (normalizeResourceID e (apiKey a) d (resourceID a)
                       (tr @ [APICall (domain_list_request (apiKey a))])) of
             Inl f \<Rightarrow>
               (Inl f, tr @ [APICall (domain_list_request (apiKey a)),
                             APICall (resource_list_request (apiKey a) d)])
           | Inr r \<Rightarrow>
               (case validateIP e i of
                  Some f \<Rightarrow>
                    (Inl f, tr @ [APICall (domain_list_request (apiKey a)),
                                  APICall (resource_list_request (apiKey a) d)])
                | None \<Rightarrow>
                    (case api e (update_request (apiKey a) d r i) of
                       ConnectFailed x \<Rightarrow>
                         (Inl (handleError
                                 ''An error occurred while connecting to the Linode API.''
                                 (Some x)),
                          tr @ [APICall (domain_list_request (apiKey a)),
                                APICall (resource_list_request (apiKey a) d),
                                APICall (update_request (apiKey a) d r i)])
                     | Unparsable x \<Rightarrow>
                         (Inl (handleError ''Couldn't parse JSON response from Linode API.''
                                 (Some x)),
                          tr @ [APICall (domain_list_request (apiKey a)),
                                APICall (resource_list_request (apiKey a) d),
                                APICall (update_request (apiKey a) d r i)])
                     | Parsed obj \<Rightarrow>
                         (case check_errors (py_repr e) obj of
                            Inl f \<Rightarrow>
                              (Inl f, tr @ [APICall (domain_list_request (apiKey a)),
                                            APICall (resource_list_request (apiKey a) d),
                                            APICall (update_request (apiKey a) d r i)])
                          | Inr x \<Rightarrow>
                              (case cache_store e
                                      (AList.update (cacheKeyName a) [(''ip'', i)] c) of
                                 Some y \<Rightarrow>
                                   (Inl (Uncaught (LibraryError y)),
                                    tr @ [APICall (domain_list_request (apiKey a)),
                                          APICall (resource_list_request (apiKey a) d),
                                          APICall (update_request (apiKey a) d r i)])
                               | None \<Rightarrow>
                                   (Inr (update_output a i),
                                    tr @ [APICall (domain_list_request (apiKey a)),
                                          APICall (resource_list_request (apiKey a) d),
                                          APICall (update_request (apiKey a) d r i),
                                          CacheWrite
                                            (AList.update (cacheKeyName a)
                                               [(''ip'', i)] c)])))))))"
proof -
  let ?D = "APICall (domain_list_request (apiKey a))"
  obtain r1 where n1: "normalizeDomainID e (apiKey a) (domainID a) tr = (r1, tr @ [?D])"
    using normalizeDomainID_trace [of e "apiKey a" "domainID a" tr]
    by (cases "normalizeDomainID e (apiKey a) (domainID a) tr")
       (simp add: domain_list_request_def)
  show ?thesis
  proof (cases r1)
    case (Inl f)
    then show ?thesis by (simp add: resolve_and_update_def n1)
  next
    case (Inr d)
    let ?R = "APICall (resource_list_request (apiKey a) d)"
    obtain r2 where n2: "normalizeResourceID e (apiKey a) d (resourceID a) (tr @ [?D])
                           = (r2, tr @ [?D, ?R])"
      using normalizeResourceID_trace [of e "apiKey a" d "resourceID a" "tr @ [?D]"]
      by (cases "normalizeResourceID e (apiKey a) d (resourceID a) (tr @ [?D])")
         (simp add: resource_list_request_def)
    show ?thesis
    proof (cases r2)
      case (Inl f)
      with Inr show ?thesis by (simp add: resolve_and_update_def n1 n2)
    next
      case r2: (Inr r)
      with Inr show ?thesis
        by (simp add: resolve_and_update_def n1 n2 updateDynDNS_path Let_def
              split: option.split response.split sum.split)
    qed
  qed
qed

text \<open>A write of the cache in the trace of the update path, traced back.\<close>

lemma resolve_and_update_write:
  assumes "CacheWrite w \<in> set (snd (resolve_and_update e a i c tr))"
    and "\<forall>w. CacheWrite w \<notin> set tr"
  shows "\<exists>d r obj.
           w = AList.update (cacheKeyName a) [(''ip'', i)] c
           \<and> inet_aton e i = Accepted
           \<and> api e (update_request (apiKey a) d r i) = Parsed obj
           \<and> check_errors (py_repr e) obj = Inr obj
           \<and> resolve_and_update e a i c tr
               = (Inr (update_output a i),
                  tr @ [APICall (domain_list_request (apiKey a)),
                        APICall (resource_list_request (apiKey a) d),
                        APICall (update_request (apiKey a) d r i),
                        CacheWrite w])"
proof -
  have v: "validateIP e i = None \<Longrightarrow> inet_aton e i = Accepted"
    by (simp add: validateIP_def split: aton_result.splits)
  from assms show ?thesis
    unfolding resolve_and_update_path
    by (auto split: sum.splits option.splits response.splits dest: v)
       (metis check_errors_Inr)
qed

text \<open>
  C1, as the code has it. A run that ends successfully is either a skip, with a cache
  hit, no API call and no write of the cache, or it made exactly the calls
  \<^verbatim>\<open>domain.list\<close>, \<^verbatim>\<open>domain.resource.list\<close>, \<^verbatim>\<open>domain.resource.update\<close> in this
  order and then wrote the cache once. A run that fails made some first part of these
  three calls, in this order, and never wrote the cache. Whenever the trace of a run
  holds a write of the cache, that write is its last event, it comes directly after the
  update request, the address was accepted by the parser, the provider answered the
  update request with an object that passed the error check, and the run ended
  successfully. So the cache is written only after the update call has returned without
  error.
\<close>

theorem run_shape:
  "(\<forall>out. fst (main e a) = Inr out \<longrightarrow>
      (activity (snd (main e a)) = []
         \<and> (\<exists>c i. cache_file e = Inr c \<and> cache_hit c (cacheKeyName a) i
                \<and> out = skip_output a i))
      \<or> (activity (snd (main e a))
            = [''domain.list'', ''domain.resource.list'', ''domain.resource.update'',
               ''cache-write'']
         \<and> (\<exists>c i. cache_file e = Inr c \<and> \<not> cache_hit c (cacheKeyName a) i
                \<and> out = update_output a i)))
   \<and> (\<forall>f. fst (main e a) = Inl f \<longrightarrow>
        prefix (activity (snd (main e a)))
          [''domain.list'', ''domain.resource.list'', ''domain.resource.update'']
        \<and> (\<forall>w. CacheWrite w \<notin> set (snd (main e a))))
   \<and> (\<forall>w. CacheWrite w \<in> set (snd (main e a)) \<longrightarrow>
        (\<exists>i c d r obj.
           fst (desired_ip e a) = Inr i \<and> cache_file e = Inr c
           \<and> w = AList.update (cacheKeyName a) [(''ip'', i)] c
           \<and> inet_aton e i = Accepted
           \<and> api e (update_request (apiKey a) d r i) = Parsed obj
           \<and> check_errors (py_repr e) obj = Inr obj
           \<and> main e a
               = (Inr (update_output a i),
                  snd (desired_ip e a)
                  @ [APICall (domain_list_request (apiKey a)),
                     APICall (resource_list_request (apiKey a) d),
                     APICall (update_request (apiKey a) d r i),
                     CacheWrite w])))"
proof (intro conjI allI impI)
  fix out
  assume s: "fst (main e a) = Inr out"
  then obtain i tr c where d: "desired_ip e a = (Inr i, tr)" and c: "cache_file e = Inr c"
    using main_success by blast
  have tr: "activity tr = []"
    using desired_ip_activity [of e a] d by simp
  show "(activity (snd (main e a)) = []
           \<and> (\<exists>c i. cache_file e = Inr c \<and> cache_hit c (cacheKeyName a) i
                  \<and> out = skip_output a i))
        \<or> (activity (snd (main e a))
              = [''domain.list'', ''domain.resource.list'', ''domain.resource.update'',
                 ''cache-write'']
           \<and> (\<exists>c i. cache_file e = Inr c \<and> \<not> cache_hit c (cacheKeyName a) i
                  \<and> out = update_output a i))"
  proof (cases "cache_hit c (cacheKeyName a) i")
    case True
    then have "main e a = (Inr (skip_output a i), tr)"
      using main_unfold [OF d c] by simp
    with s tr c True show ?thesis by auto
  next
    case False
    then have m: "main e a = resolve_and_update e a i c tr"
      using main_unfold [OF d c] by simp
    from s resolve_and_update_shape [of e a i c tr] tr
    have "out = update_output a i
          \<and> activity (snd (main e a))
              = [''domain.list'', ''domain.resource.list'', ''domain.resource.update'',
                 ''cache-write'']"
      unfolding m by simp
    with c False show ?thesis by blast
  qed
next
  fix f
  assume s: "fst (main e a) = Inl f"
  obtain r tr where d: "desired_ip e a = (r, tr)"
    by (cases "desired_ip e a")
  have tr: "activity tr = []"
    using desired_ip_activity [of e a] d by simp
  have nw: "\<forall>w. CacheWrite w \<notin> set tr"
    using desired_ip_no_write [of _ e a] d by simp
  have "prefix (activity (snd (main e a)))
          [''domain.list'', ''domain.resource.list'', ''domain.resource.update'']
        \<and> (\<forall>w. CacheWrite w \<notin> set (snd (main e a)))"
  proof (cases r)
    case (Inl g)
    then have "main e a = (Inl g, tr)"
      using d by (simp add: main_def)
    with tr nw show ?thesis by simp
  next
    case (Inr i)
    show ?thesis
    proof (cases "cache_file e")
      case (Inl x)
      then have "main e a = (Inl (Uncaught (LibraryError x)), tr)"
        using d Inr by (simp add: main_def)
      with tr nw show ?thesis by simp
    next
      case c: (Inr c)
      from d Inr have d': "desired_ip e a = (Inr i, tr)"
        by simp
      show ?thesis
      proof (cases "cache_hit c (cacheKeyName a) i")
        case True
        then have "main e a = (Inr (skip_output a i), tr)"
          using main_unfold [OF d' c] by simp
        with s show ?thesis by simp
      next
        case False
        then have m: "main e a = resolve_and_update e a i c tr"
          using main_unfold [OF d' c] by simp
        from s resolve_and_update_shape [of e a i c tr] tr nw
        show ?thesis
          unfolding m by auto
      qed
    qed
  qed
  then show "prefix (activity (snd (main e a)))
               [''domain.list'', ''domain.resource.list'', ''domain.resource.update'']"
    and "\<And>w. CacheWrite w \<notin> set (snd (main e a))"
    by simp_all
next
  fix w
  assume cw: "CacheWrite w \<in> set (snd (main e a))"
  obtain r tr where d: "desired_ip e a = (r, tr)"
    by (cases "desired_ip e a")
  have nw: "\<forall>w. CacheWrite w \<notin> set tr"
    using desired_ip_no_write [of _ e a] d by simp
  have r: "\<exists>i. r = Inr i"
  proof (cases r)
    case (Inl g)
    then have "main e a = (Inl g, tr)"
      using d by (simp add: main_def)
    with cw nw show ?thesis by simp
  next
    case (Inr i)
    then show ?thesis by simp
  qed
  then obtain i where d': "desired_ip e a = (Inr i, tr)"
    using d by blast
  have "\<exists>c. cache_file e = Inr c"
  proof (cases "cache_file e")
    case (Inl x)
    then have "main e a = (Inl (Uncaught (LibraryError x)), tr)"
      using d' by (simp add: main_def)
    with cw nw show ?thesis by simp
  next
    case (Inr c)
    then show ?thesis by simp
  qed
  then obtain c where c: "cache_file e = Inr c"
    by blast
  have m: "main e a = resolve_and_update e a i c tr"
  proof (cases "cache_hit c (cacheKeyName a) i")
    case True
    then have "main e a = (Inr (skip_output a i), tr)"
      using main_unfold [OF d' c] by simp
    with cw nw show ?thesis by simp
  next
    case False
    then show ?thesis
      using main_unfold [OF d' c] by simp
  qed
  from cw have "CacheWrite w \<in> set (snd (resolve_and_update e a i c tr))"
    unfolding m .
  from resolve_and_update_write [OF this nw]
  obtain dd rr obj where
    "w = AList.update (cacheKeyName a) [(''ip'', i)] c"
    "inet_aton e i = Accepted"
    "api e (update_request (apiKey a) dd rr i) = Parsed obj"
    "check_errors (py_repr e) obj = Inr obj"
    "resolve_and_update e a i c tr
       = (Inr (update_output a i),
          tr @ [APICall (domain_list_request (apiKey a)),
                APICall (resource_list_request (apiKey a) dd),
                APICall (update_request (apiKey a) dd rr i),
                CacheWrite w])"
    by blast
  with c d' show "\<exists>i c d r obj.
           fst (desired_ip e a) = Inr i \<and> cache_file e = Inr c
           \<and> w = AList.update (cacheKeyName a) [(''ip'', i)] c
           \<and> inet_aton e i = Accepted
           \<and> api e (update_request (apiKey a) d r i) = Parsed obj
           \<and> check_errors (py_repr e) obj = Inr obj
           \<and> main e a
               = (Inr (update_output a i),
                  snd (desired_ip e a)
                  @ [APICall (domain_list_request (apiKey a)),
                     APICall (resource_list_request (apiKey a) d),
                     APICall (update_request (apiKey a) d r i),
                     CacheWrite w])"
    unfolding m by auto
qed

lemmas run_defs =
  main_def desired_ip_def getExternalIP_def validateIP_def resolve_and_update_def
  normalizeDomainID_def normalizeResourceID_def updateDynDNS_def linodeAPICall_def
  check_errors_def cacheKeyName_def cache_hit_def lower_char_def Let_def

theorem run_shape_witness:
  "(activity (snd (main
       (example_env (reply (JList example_domains)) (reply (JList example_resources)) [])
       (example_args None))) = []
    \<or> activity (snd (main
       (example_env (reply (JList example_domains)) (reply (JList example_resources)) [])
       (example_args None)))
      = [''domain.list'', ''domain.resource.list'', ''domain.resource.update'', ''cache-write''])
   \<and> prefix
       (activity (snd (main
          (example_env (reply (JList example_domains)) (reply (JList example_resources)) [])
          (example_args (Some ''not-an-ip'')))))
       [''domain.list'', ''domain.resource.list'', ''domain.resource.update'']
   \<and> (\<exists>d r obj.
         api (example_env (reply (JList example_domains)) (reply (JList example_resources)) [])
           (update_request ''1A4FB63C245D'' d r ''203.0.113.5'') = Parsed obj
         \<and> check_errors (\<lambda>v. []) obj = Inr obj)"
proof -
  let ?e = "example_env (reply (JList example_domains)) (reply (JList example_resources)) []"
  have h1: "fst (main ?e (example_args None))
              = Inr (update_output (example_args None) ''203.0.113.5'')"
    by (simp add: run_defs example_defs number_defs)
  have h3: "CacheWrite [(''home.example.com'', [(''ip'', ''203.0.113.5'')])]
              \<in> set (snd (main ?e (example_args None)))"
    by (simp add: run_defs example_defs number_defs)
  have h4: "fst (desired_ip ?e (example_args None)) = Inr ''203.0.113.5''"
    by (simp add: desired_ip_def getExternalIP_def validateIP_def example_defs)
  have h5: "apiKey (example_args None) = ''1A4FB63C245D''" "py_repr ?e = (\<lambda>v. [])"
    by (simp_all add: example_defs)
  from run_shape [of ?e "example_args None"] h3
  obtain i d r obj where
    "fst (desired_ip ?e (example_args None)) = Inr i"
    "api ?e (update_request (apiKey (example_args None)) d r i) = Parsed obj"
    "check_errors (py_repr ?e) obj = Inr obj"
    by blast
  with h4 h5 have c: "\<exists>d r obj.
         api ?e (update_request ''1A4FB63C245D'' d r ''203.0.113.5'') = Parsed obj
         \<and> check_errors (\<lambda>v. []) obj = Inr obj"
    by auto
  have h2: \<open>fst (main ?e (example_args (Some ''not-an-ip'')))
              = Inl (handleError (''The supplied IP address "not-an-ip" is invalid.'')
                       (Some ''illegal IP address string passed to inet_aton''))\<close>
    by (simp add: run_defs example_defs number_defs)
  from run_shape [of ?e "example_args None"] h1
  have a: "activity (snd (main ?e (example_args None))) = []
           \<or> activity (snd (main ?e (example_args None)))
             = [''domain.list'', ''domain.resource.list'', ''domain.resource.update'',
                ''cache-write'']"
    by blast
  from run_shape [of ?e "example_args (Some ''not-an-ip'')"] h2
  have b: "prefix (activity (snd (main ?e (example_args (Some ''not-an-ip'')))))
             [''domain.list'', ''domain.resource.list'', ''domain.resource.update'']"
    by blast
  from a b c show ?thesis by blast
qed

text \<open>
  C1, as the specification states it, fails: the run for a domain the provider does not
  list, with an empty cache, makes the one call \<^verbatim>\<open>domain.list\<close> and stops. The
  cache-hit check did not succeed, and the run is neither one without calls nor one with
  the three calls and the write.
\<close>

theorem run_unknown_domain_is_neither:
  "cache_file (example_env (reply (JList example_domains)) (reply (JList example_resources)) [])
     = Inr []
   \<and> \<not> cache_hit []
         (cacheKeyName ((example_args (Some ''203.0.113.5''))\<lparr>domainID := ''nope.com''\<rparr>))
         ''203.0.113.5''
   \<and> activity (snd (main
      (example_env (reply (JList example_domains)) (reply (JList example_resources)) [])
      ((example_args (Some ''203.0.113.5''))\<lparr>domainID := ''nope.com''\<rparr>)))
     = [''domain.list'']
   \<and> \<not> (activity (snd (main
      (example_env (reply (JList example_domains)) (reply (JList example_resources)) [])
      ((example_args (Some ''203.0.113.5''))\<lparr>domainID := ''nope.com''\<rparr>))) = []
       \<or> activity (snd (main
      (example_env (reply (JList example_domains)) (reply (JList example_resources)) [])
      ((example_args (Some ''203.0.113.5''))\<lparr>domainID := ''nope.com''\<rparr>)))
         = [''domain.list'', ''domain.resource.list'', ''domain.resource.update'',
            ''cache-write''])"
  by (simp add: run_defs example_defs number_defs activity_def)

text \<open>
  C2. Once the address to publish is known and the cache is loaded, the run is a skip
  (it ends successfully with the message that no update is needed, having made no API
  call and no write) exactly when the cache has the section of the cache key and that
  section's \<^verbatim>\<open>ip\<close> option is the same string as the address. In every other case,
  whether the section is missing, has no such option or holds another string, the run
  is the full resolve-and-update path: it calls \<^verbatim>\<open>domain.list\<close>; when the domain
  resolves, it calls \<^verbatim>\<open>domain.resource.list\<close> for the resolved domain; when the record
  resolves, it validates the address and, when that is accepted, sends the update
  request with the two resolved IDs and the address; when the answer passes the error
  check, it writes the cache. A failure at any of these steps ends the run there, with
  the requests sent so far in the trace.
\<close>

theorem skip_iff_cache_hit:
  assumes "desired_ip e a = (Inr i, tr)" and "cache_file e = Inr c"
  shows "((fst (main e a) = Inr (skip_output a i) \<and> activity (snd (main e a)) = [])
           \<longleftrightarrow> (\<exists>opts. map_of c (cacheKeyName a) = Some opts \<and> map_of opts ''ip'' = Some i))
       \<and> ((\<nexists>opts. map_of c (cacheKeyName a) = Some opts \<and> map_of opts ''ip'' = Some i)
            \<longrightarrow> (\<exists>rest. snd (main e a)
                    = tr @ APICall [(''api_action'', ''domain.list''), (''api_key'', apiKey a)]
                        # rest)
              \<and> main e a =
              (case fst (normalizeDomainID e (apiKey a) (domainID a) tr) of
                 Inl f \<Rightarrow> (Inl f, tr @ [APICall (domain_list_request (apiKey a))])
               | Inr d \<Rightarrow>
                   (case fst (normalizeResourceID e (apiKey a) d (resourceID a)
                                (tr @ [APICall (domain_list_request (apiKey a))])) of
                      Inl f \<Rightarrow>
                        (Inl f, tr @ [APICall (domain_list_request (apiKey a)),
                                      APICall (resource_list_request (apiKey a) d)])
                    | Inr r \<Rightarrow>
                        (case validateIP e i of
                           Some f \<Rightarrow>
                             (Inl f, tr @ [APICall (domain_list_request (apiKey a)),
                                           APICall (resource_list_request (apiKey a) d)])
                         | None \<Rightarrow>
                             (case api e (update_request (apiKey a) d r i) of
                                ConnectFailed x \<Rightarrow>
                                  (Inl (handleError
                                          ''An error occurred while connecting to the Linode API.''
                                          (Some x)),
                                   tr @ [APICall (domain_list_request (apiKey a)),
                                         APICall (resource_list_request (apiKey a) d),
                                         APICall (update_request (apiKey a) d r i)])
                              | Unparsable x \<Rightarrow>
                                  (Inl (handleError ''Couldn't parse JSON response from Linode API.''
                                          (Some x)),
                                   tr @ [APICall (domain_list_request (apiKey a)),
                                         APICall (resource_list_request (apiKey a) d),
                                         APICall (update_request (apiKey a) d r i)])
                              | Parsed obj \<Rightarrow>
                                  (case check_errors (py_repr e) obj of
                                     Inl f \<Rightarrow>
                                       (Inl f, tr @ [APICall (domain_list_request (apiKey a)),
                                                     APICall (resource_list_request (apiKey a) d),
                                                     APICall (update_request (apiKey a) d r i)])
                                   | Inr x \<Rightarrow>
                                       (case cache_store e
                                               (AList.update (cacheKeyName a) [(''ip'', i)] c) of
                                          Some y \<Rightarrow>
                                            (Inl (Uncaught (LibraryError y)),
                                             tr @ [APICall (domain_list_request (apiKey a)),
                                                   APICall (resource_list_request (apiKey a) d),
                                                   APICall (update_request (apiKey a) d r i)])
                                        | None \<Rightarrow>
                                            (Inr (update_output a i),
                                             tr @ [APICall (domain_list_request (apiKey a)),
                                                   APICall (resource_list_request (apiKey a) d),
                                                   APICall (update_request (apiKey a) d r i),
                                                   CacheWrite
                                                     (AList.update (cacheKeyName a)
                                                        [(''ip'', i)] c)]))))))))"
proof -
  have hit: "cache_hit c (cacheKeyName a) i
               \<longleftrightarrow> (\<exists>opts. map_of c (cacheKeyName a) = Some opts \<and> map_of opts ''ip'' = Some i)"
    by (auto simp: cache_hit_def split: option.splits)
  have tr: "activity tr = []"
    using desired_ip_activity [of e a] assms(1) by simp
  show ?thesis
  proof (cases "cache_hit c (cacheKeyName a) i")
    case True
    then have "main e a = (Inr (skip_output a i), tr)"
      using main_unfold [OF assms] by simp
    with True tr hit show ?thesis by simp
  next
    case False
    then have m: "main e a = resolve_and_update e a i c tr"
      using main_unfold [OF assms] by simp
    have "fst (resolve_and_update e a i c tr) \<noteq> Inr (skip_output a i)"
      using resolve_and_update_shape [of e a i c tr]
      by (auto simp: skip_output_def update_output_def)
    moreover have "\<exists>rest. snd (resolve_and_update e a i c tr)
                     = tr @ APICall [(''api_action'', ''domain.list''), (''api_key'', apiKey a)]
                         # rest"
      using resolve_and_update_shape [of e a i c tr] by blast
    ultimately have c1: "(fst (main e a) = Inr (skip_output a i)
                            \<and> activity (snd (main e a)) = [])
                          \<longleftrightarrow> (\<exists>opts. map_of c (cacheKeyName a) = Some opts
                                 \<and> map_of opts ''ip'' = Some i)"
      and c2: "\<exists>rest. snd (main e a)
                 = tr @ APICall [(''api_action'', ''domain.list''), (''api_key'', apiKey a)]
                     # rest"
      using False hit unfolding m by simp_all
    have c3: "main e a =
              (case fst (normalizeDomainID e (apiKey a) (domainID a) tr) of
                 Inl f \<Rightarrow> (Inl f, tr @ [APICall (domain_list_request (apiKey a))])
               | Inr d \<Rightarrow>
                   (case fst (normalizeResourceID e (apiKey a) d (resourceID a)
                                (tr @ [APICall (domain_list_request (apiKey a))])) of
                      Inl f \<Rightarrow>
                        (Inl f, tr @ [APICall (domain_list_request (apiKey a)),
                                      APICall (resource_list_request (apiKey a) d)])
                    | Inr r \<Rightarrow>
                        (case validateIP e i of
                           Some f \<Rightarrow>
                             (Inl f, tr @ [APICall (domain_list_request (apiKey a)),
                                           APICall (resource_list_request (apiKey a) d)])
                         | None \<Rightarrow>
                             (case api e (update_request (apiKey a) d r i) of
                                ConnectFailed x \<Rightarrow>
                                  (Inl (handleError
                                          ''An error occurred while connecting to the Linode API.''
                                          (Some x)),
                                   tr @ [APICall (domain_list_request (apiKey a)),
                                         APICall (resource_list_request (apiKey a) d),
                                         APICall (update_request (apiKey a) d r i)])
                              | Unparsable x \<Rightarrow>
                                  (Inl (handleError ''Couldn't parse JSON response from Linode API.''
                                          (Some x)),
                                   tr @ [APICall (domain_list_request (apiKey a)),
                                         APICall (resource_list_request (apiKey a) d),
                                         APICall (update_request (apiKey a) d r i)])
                              | Parsed obj \<Rightarrow>
                                  (case check_errors (py_repr e) obj of
                                     Inl f \<Rightarrow>
                                       (Inl f, tr @ [APICall (domain_list_request (apiKey a)),
                                                     APICall (resource_list_request (apiKey a) d),
                                                     APICall (update_request (apiKey a) d r i)])
                                   | Inr x \<Rightarrow>
                                       (case cache_store e
                                               (AList.update (cacheKeyName a) [(''ip'', i)] c) of
                                          Some y \<Rightarrow>
                                            (Inl (Uncaught (LibraryError y)),
                                             tr @ [APICall (domain_list_request (apiKey a)),
                                                   APICall (resource_list_request (apiKey a) d),
                                                   APICall (update_request (apiKey a) d r i)])
                                        | None \<Rightarrow>
                                            (Inr (update_output a i),
                                             tr @ [APICall (domain_list_request (apiKey a)),
                                                   APICall (resource_list_request (apiKey a) d),
                                                   APICall (update_request (apiKey a) d r i),
                                                   CacheWrite
                                                     (AList.update (cacheKeyName a)
                                                        [(''ip'', i)] c)])))))))"
      unfolding m by (rule resolve_and_update_path)
    show ?thesis
      by (intro conjI impI) (rule c1, rule c2, rule c3)
  qed
qed

theorem skip_iff_cache_hit_witness:
  "fst (main
     (example_env (reply (JList example_domains)) (reply (JList example_resources))
        [(''home.example.com'', [(''ip'', ''203.0.113.5'')])])
     (example_args (Some ''203.0.113.5'')))
     = Inr (skip_output (example_args (Some ''203.0.113.5'')) ''203.0.113.5'')
   \<and> (\<exists>rest. snd (main
     (example_env (reply (JList example_domains)) (reply (JList example_resources))
        [(''home.example.com'', [(''ip'', ''198.51.100.7'')])])
     (example_args (Some ''203.0.113.5'')))
     = APICall [(''api_action'', ''domain.list''), (''api_key'', ''1A4FB63C245D'')] # rest)
   \<and> main
     (example_env (reply (JList example_domains)) (reply (JList example_resources))
        [(''home.example.com'', [(''ip'', ''198.51.100.7'')])])
     (example_args (Some ''203.0.113.5''))
     = (Inr (update_output (example_args (Some ''203.0.113.5'')) ''203.0.113.5''),
        [APICall (domain_list_request ''1A4FB63C245D''),
         APICall (resource_list_request ''1A4FB63C245D'' ''100''),
         APICall (update_request ''1A4FB63C245D'' ''100'' ''200'' ''203.0.113.5''),
         CacheWrite [(''home.example.com'', [(''ip'', ''203.0.113.5'')])]])"
proof -
  let ?c1 = "[(''home.example.com'', [(''ip'', ''203.0.113.5'')])]"
  let ?c2 = "[(''home.example.com'', [(''ip'', ''198.51.100.7'')])]"
  let ?e1 = "example_env (reply (JList example_domains)) (reply (JList example_resources)) ?c1"
  let ?e2 = "example_env (reply (JList example_domains)) (reply (JList example_resources)) ?c2"
  let ?a = "example_args (Some ''203.0.113.5'')"
  have d1: "desired_ip ?e1 ?a = (Inr ''203.0.113.5'', [])"
    by (simp add: desired_ip_def example_args_def)
  have d2: "desired_ip ?e2 ?a = (Inr ''203.0.113.5'', [])"
    by (simp add: desired_ip_def example_args_def)
  have c1: "cache_file ?e1 = Inr ?c1"
    by (simp add: example_env_def)
  have c2: "cache_file ?e2 = Inr ?c2"
    by (simp add: example_env_def)
  have k1: "\<exists>opts. map_of ?c1 (cacheKeyName ?a) = Some opts
              \<and> map_of opts ''ip'' = Some ''203.0.113.5''"
    by (simp add: cacheKeyName_def example_args_def)
  have k2: "\<nexists>opts. map_of ?c2 (cacheKeyName ?a) = Some opts
              \<and> map_of opts ''ip'' = Some ''203.0.113.5''"
    by (simp add: cacheKeyName_def example_args_def)
  have key: "apiKey ?a = ''1A4FB63C245D''"
    by (simp add: example_args_def)
  from skip_iff_cache_hit [OF d1 c1] k1
  have a: "fst (main ?e1 ?a) = Inr (skip_output ?a ''203.0.113.5'')"
    by blast
  from skip_iff_cache_hit [OF d2 c2] k2
  have b: "\<exists>rest. snd (main ?e2 ?a)
             = [] @ APICall [(''api_action'', ''domain.list''), (''api_key'', apiKey ?a)] # rest"
    by blast
  then have b': "\<exists>rest. snd (main ?e2 ?a)
             = APICall [(''api_action'', ''domain.list''), (''api_key'', ''1A4FB63C245D'')] # rest"
    unfolding key by simp
  note p = skip_iff_cache_hit [OF d2 c2, THEN conjunct2, rule_format, OF k2, THEN conjunct2]
  have c: "main ?e2 ?a
             = (Inr (update_output ?a ''203.0.113.5''),
                [APICall (domain_list_request ''1A4FB63C245D''),
                 APICall (resource_list_request ''1A4FB63C245D'' ''100''),
                 APICall (update_request ''1A4FB63C245D'' ''100'' ''200'' ''203.0.113.5''),
                 CacheWrite [(''home.example.com'', [(''ip'', ''203.0.113.5'')])]])"
    unfolding p
    by (simp add: normalizeDomainID_def normalizeResourceID_def linodeAPICall_def
          check_errors_def validateIP_def cacheKeyName_def lower_char_def Let_def
          example_defs number_defs domain_list_request_def resource_list_request_def
          update_request_def)
  from a b' c show ?thesis by (intro conjI)
qed

text \<open>
  C3. The cache key is the resource identifier as the user gave it, a dot, and the domain
  identifier as the user gave it. The skip test reads the cache under this key, every
  write of the cache sets the \<^verbatim>\<open>ip\<close> option of the section with this key and leaves
  the other sections as they were loaded, and a successful update does write it. The IDs
  that resolution returned are not part of the key.
\<close>

theorem cache_key_is_user_input:
  assumes "desired_ip e a = (Inr i, tr)" and "cache_file e = Inr c"
  shows "(fst (main e a) = Inr (skip_output a i)
           \<longleftrightarrow> (\<exists>opts. map_of c (resourceID a @ ''.'' @ domainID a) = Some opts
                  \<and> map_of opts ''ip'' = Some i))
       \<and> (\<forall>w. CacheWrite w \<in> set (snd (main e a)) \<longrightarrow>
             w = AList.update (resourceID a @ ''.'' @ domainID a) [(''ip'', i)] c)
       \<and> (fst (main e a) = Inr (update_output a i) \<longrightarrow>
             CacheWrite (AList.update (resourceID a @ ''.'' @ domainID a) [(''ip'', i)] c)
               \<in> set (snd (main e a)))"
proof -
  have hit: "cache_hit c (cacheKeyName a) i
               \<longleftrightarrow> (\<exists>opts. map_of c (resourceID a @ ''.'' @ domainID a) = Some opts
                      \<and> map_of opts ''ip'' = Some i)"
    by (auto simp: cache_hit_def cacheKeyName_def split: option.splits)
  have k: "cacheKeyName a = resourceID a @ ''.'' @ domainID a"
    by (simp add: cacheKeyName_def)
  have nw: "\<forall>w. CacheWrite w \<notin> set tr"
    using desired_ip_no_write [of _ e a] assms(1) by simp
  have ne: "update_output a i \<noteq> skip_output a i"
    by (simp add: skip_output_def update_output_def)
  show ?thesis
  proof (cases "cache_hit c (cacheKeyName a) i")
    case True
    then have "main e a = (Inr (skip_output a i), tr)"
      using main_unfold [OF assms] by simp
    with True hit nw ne show ?thesis by simp
  next
    case False
    then have m: "main e a = resolve_and_update e a i c tr"
      using main_unfold [OF assms] by simp
    let ?r = "resolve_and_update e a i c tr"
    let ?W = "CacheWrite (AList.update (cacheKeyName a) [(''ip'', i)] c)"
    have s1: "fst ?r \<noteq> Inr (skip_output a i)"
      using resolve_and_update_shape [of e a i c tr] ne by auto
    have s2: "\<forall>w. CacheWrite w \<in> set (snd ?r)
                \<longrightarrow> w = AList.update (cacheKeyName a) [(''ip'', i)] c"
    proof (cases "fst ?r")
      case (Inl f)
      then show ?thesis
        using resolve_and_update_shape [of e a i c tr] nw by blast
    next
      case (Inr out)
      then obtain tr' where t: "snd ?r = tr' @ [?W]"
        "\<forall>w. CacheWrite w \<in> set tr' \<longrightarrow> CacheWrite w \<in> set tr"
        using resolve_and_update_shape [of e a i c tr] by blast
      with nw show ?thesis by auto
    qed
    have s3: "fst ?r = Inr (update_output a i) \<longrightarrow> ?W \<in> set (snd ?r)"
    proof
      assume "fst ?r = Inr (update_output a i)"
      then obtain tr' where "snd ?r = tr' @ [?W]"
        using resolve_and_update_shape [of e a i c tr] by blast
      then show "?W \<in> set (snd ?r)" by simp
    qed
    from s1 s2 s3 False hit show ?thesis
      unfolding m k by simp
  qed
qed

theorem cache_key_is_user_input_witness:
  "CacheWrite [(''home.example.com'', [(''ip'', ''203.0.113.5'')])]
     \<in> set (snd (main
         (example_env (reply (JList example_domains)) (reply (JList example_resources)) [])
         (example_args None)))"
proof -
  let ?e = "example_env (reply (JList example_domains)) (reply (JList example_resources)) []"
  let ?a = "example_args None"
  have d: "desired_ip ?e ?a = (Inr ''203.0.113.5'', [IPLookup])"
    by (simp add: desired_ip_def getExternalIP_def validateIP_def example_defs)
  have c: "cache_file ?e = Inr []"
    by (simp add: example_env_def)
  have s: "fst (main ?e ?a) = Inr (update_output ?a ''203.0.113.5'')"
    by (simp add: run_defs example_defs number_defs)
  have k: "AList.update (resourceID ?a @ ''.'' @ domainID ?a) [(''ip'', ''203.0.113.5'')] []
             = [(''home.example.com'', [(''ip'', ''203.0.113.5'')])]"
    by (simp add: example_args_def)
  from cache_key_is_user_input [OF d c] s
  show ?thesis
    unfolding k by blast
qed

text \<open>
  C9. There is a run in which the address given with the \<^verbatim>\<open>-ip\<close> flag is one the
  address parser rejects, the cache holds that very string under the cache key, and the
  run ends successfully as a skip without any call. With an empty cache the same command
  line ends in the invalid-address failure: the flag's value is validated on the update
  path only.
\<close>

theorem invalid_flag_ip_skips:
  \<open>\<exists>e a s x c.
     ip a = Some s \<and> inet_aton e s = SocketError x \<and> cache_file e = Inr c
     \<and> map_of c (cacheKeyName a) = Some [(''ip'', s)]
     \<and> main e a = (Inr (skip_output a s), [])
     \<and> fst (main (e\<lparr>cache_file := Inr []\<rparr>) a)
         = Inl (handleError (''The supplied IP address "'' @ s @ ''" is invalid.'') (Some x))\<close>
proof -
  let ?c = "[(''home.example.com'', [(''ip'', ''not-an-ip'')])]"
  let ?e = "example_env (reply (JList example_domains)) (reply (JList example_resources)) ?c"
  let ?a = "example_args (Some ''not-an-ip'')"
  let ?x = "''illegal IP address string passed to inet_aton''"
  have 1: "ip ?a = Some ''not-an-ip''"
    by (simp add: example_args_def)
  have 2: "inet_aton ?e ''not-an-ip'' = SocketError ?x"
    by (simp add: example_env_def example_aton_def)
  have 3: "cache_file ?e = Inr ?c"
    by (simp add: example_env_def)
  have 4: "map_of ?c (cacheKeyName ?a) = Some [(''ip'', ''not-an-ip'')]"
    by (simp add: cacheKeyName_def example_args_def)
  have 5: "main ?e ?a = (Inr (skip_output ?a ''not-an-ip''), [])"
    by (simp add: main_def desired_ip_def cache_hit_def cacheKeyName_def example_defs)
  have 6: \<open>fst (main (?e\<lparr>cache_file := Inr []\<rparr>) ?a)
             = Inl (handleError (''The supplied IP address "'' @ ''not-an-ip'' @ ''" is invalid.'')
                      (Some ?x))\<close>
    by (simp add: run_defs example_defs number_defs)
  from 1 2 3 4 5 6 show ?thesis by blast
qed

end
